theory Spec2Isabelle
  imports Complex_Main "HOL-Library.Word" "HOL-Library.AList"
begin

section \<open>Strings\<close>

text \<open>
  A string is the list of its UTF-16 code units: what \<open>length\<close>, \<open>charAt\<close>, \<open>slice\<close>,
  \<open>lastIndexOf\<close> and the regular expressions of the source (none has the \<open>u\<close> flag)
  count. \<open>js\<close> gives the code units of a literal written in Latin-1, where a character
  is its own code unit.
\<close>

type_synonym codeUnit = "16 word"

type_synonym jsString = "codeUnit list"

definition js :: "string \<Rightarrow> jsString" where
  "js literal = map of_char literal"

text \<open>
  The white space and the line terminators of ECMAScript, which \<open>trim\<close> strips and \<open>\s\<close>
  matches: TAB, LF, VT, FF, CR, SPACE, NO-BREAK SPACE, U+1680, U+2000 to U+200A, the line
  and paragraph separators, U+202F, U+205F, U+3000 and the byte order mark.
\<close>

definition isWhiteSpace :: "codeUnit \<Rightarrow> bool" where
  "isWhiteSpace c =
     (c \<in> set [0x0009, 0x000A, 0x000B, 0x000C, 0x000D, 0x0020, 0x00A0, 0x1680, 0x2000, 0x2001,
                0x2002, 0x2003, 0x2004, 0x2005, 0x2006, 0x2007, 0x2008, 0x2009, 0x200A, 0x2028,
                0x2029, 0x202F, 0x205F, 0x3000, 0xFEFF])"

definition trim :: "jsString \<Rightarrow> jsString" where
  "trim s = rev (dropWhile isWhiteSpace (rev (dropWhile isWhiteSpace s)))"

text \<open>\<open>toString\<close> is the decimal rendering of a non-negative integer in a template string.\<close>

definition digitChar :: "nat \<Rightarrow> codeUnit" where
  "digitChar d = js ''0123456789'' ! d"

function toString :: "nat \<Rightarrow> jsString" where
  "toString n = (if n < 10 then [digitChar n] else toString (n div 10) @ [digitChar (n mod 10)])"
  by pat_completeness auto
termination
  by (relation "measure (\<lambda>n. n)") auto

text \<open>
  The operator \<open>||\<close> on values that are a string, \<open>undefined\<close> or \<open>null\<close> (here \<open>None\<close>):
  the left operand when it is truthy, that is a non-empty string, else the right one.
\<close>

definition truthy :: "jsString option \<Rightarrow> bool" where
  "truthy v = (case v of None \<Rightarrow> False | Some s \<Rightarrow> s \<noteq> [])"

definition or_else :: "jsString option \<Rightarrow> jsString option \<Rightarrow> jsString option" where
  "or_else a b = (if truthy a then a else b)"

definition or_default :: "jsString option \<Rightarrow> jsString \<Rightarrow> jsString" where
  "or_default a d = (case a of None \<Rightarrow> d | Some s \<Rightarrow> if s \<noteq> [] then s else d)"

section \<open>Numbers\<close>

text \<open>
  A JavaScript number is an IEEE 754 double: \<open>Finite x\<close> is the double of value \<open>x\<close>, next to
  the two infinities and \<open>NaN\<close>. The model has one zero; the negative zero differs from it
  only as a divisor and in its sign, and the code below divides by a step count only.

  \<open>roundToDouble\<close> is the rounding every arithmetic operation and every decimal literal
  goes through: the nearest double, the one with the even significand when two are
  equally near, and an infinity from \<open>2^1024\<close> on. A double has 53 significant bits at a
  binary exponent from -1022 up, so below \<open>2^-1022\<close> the spacing stays \<open>2^-1074\<close>.
\<close>

datatype double = Finite real | PosInfinity | NegInfinity | NaN

text \<open>The number of binary digits of a positive integer.\<close>

function bitLength :: "int \<Rightarrow> int" where
  "bitLength n = (if n \<le> 0 then 0 else 1 + bitLength (n div 2))"
  by pat_completeness auto
termination
  by (relation "measure (\<lambda>n. nat n)") auto

definition pow2 :: "int \<Rightarrow> real" where
  "pow2 e = (if 0 \<le> e then 2 ^ nat e else 1 / 2 ^ nat (- e))"

text \<open>For \<open>a > 0\<close>, the exponent \<open>e\<close> with \<open>2^e \<le> a < 2^(e+1)\<close>.\<close>

definition binaryExponent :: "real \<Rightarrow> int" where
  "binaryExponent a =
     (if 1 \<le> a then bitLength \<lfloor>a\<rfloor> - 1
      else (let k = bitLength \<lfloor>1 / a\<rfloor> - 1
            in if pow2 (- k) \<le> a then - k else - k - 1))"

definition roundHalfEven :: "real \<Rightarrow> int" where
  "roundHalfEven q =
     (let f = \<lfloor>q\<rfloor>; r = q - of_int f
      in if r < 1 / 2 then f else if 1 / 2 < r then f + 1 else if even f then f else f + 1)"

definition roundToDouble :: "real \<Rightarrow> double" where
  "roundToDouble q =
     (if q = 0 then Finite 0
      else (let a = \<bar>q\<bar>;
                e = max (binaryExponent a) (- 1022);
                ulp = pow2 (e - 52);
                v = of_int (roundHalfEven (a / ulp)) * ulp
            in if pow2 1024 \<le> v then (if 0 < q then PosInfinity else NegInfinity)
               else Finite (if 0 < q then v else - v)))"

definition signOf :: "double \<Rightarrow> int" where
  "signOf x =
     (case x of
        Finite a \<Rightarrow> (if 0 < a then 1 else if a < 0 then - 1 else 0)
      | PosInfinity \<Rightarrow> 1
      | NegInfinity \<Rightarrow> - 1
      | NaN \<Rightarrow> 0)"

text \<open>The operators \<open>+\<close>, \<open>*\<close> and \<open>/\<close> on numbers.\<close>

definition add_double :: "double \<Rightarrow> double \<Rightarrow> double" where
  "add_double x y =
     (if x = NaN \<or> y = NaN then NaN
      else case (x, y) of
             (Finite a, Finite b) \<Rightarrow> roundToDouble (a + b)
           | (Finite a, _) \<Rightarrow> y
           | (_, Finite b) \<Rightarrow> x
           | _ \<Rightarrow> if x = y then x else NaN)"

definition mul_double :: "double \<Rightarrow> double \<Rightarrow> double" where
  "mul_double x y =
     (if x = NaN \<or> y = NaN then NaN
      else case (x, y) of
             (Finite a, Finite b) \<Rightarrow> roundToDouble (a * b)
           | _ \<Rightarrow> if signOf x * signOf y = 0 then NaN
                  else if 0 < signOf x * signOf y then PosInfinity else NegInfinity)"

definition div_double :: "double \<Rightarrow> double \<Rightarrow> double" where
  "div_double x y =
     (if x = NaN \<or> y = NaN then NaN
      else case (x, y) of
             (Finite a, Finite b) \<Rightarrow>
               if b \<noteq> 0 then roundToDouble (a / b)
               else if a = 0 then NaN else if 0 < a then PosInfinity else NegInfinity
           | (Finite a, _) \<Rightarrow> Finite 0
           | (_, Finite b) \<Rightarrow> if (x = PosInfinity) = (0 \<le> b) then PosInfinity else NegInfinity
           | _ \<Rightarrow> NaN)"

text \<open>The comparison \<open>x < y\<close>, false when an operand is \<open>NaN\<close>.\<close>

definition less_double :: "double \<Rightarrow> double \<Rightarrow> bool" where
  "less_double x y =
     (case (x, y) of
        (Finite a, Finite b) \<Rightarrow> a < b
      | (Finite a, PosInfinity) \<Rightarrow> True
      | (NegInfinity, Finite b) \<Rightarrow> True
      | (NegInfinity, PosInfinity) \<Rightarrow> True
      | _ \<Rightarrow> False)"

text \<open>
  \<open>Math.max\<close> and \<open>Math.min\<close> of two numbers give \<open>NaN\<close> when one of them is \<open>NaN\<close>.
  \<open>Math.round\<close> is exact: the nearest integer, the upper one at a tie.
\<close>

definition Math_max :: "double \<Rightarrow> double \<Rightarrow> double" where
  "Math_max x y = (if x = NaN \<or> y = NaN then NaN else if less_double x y then y else x)"

definition Math_min :: "double \<Rightarrow> double \<Rightarrow> double" where
  "Math_min x y = (if x = NaN \<or> y = NaN then NaN else if less_double y x then y else x)"

definition Math_round :: "double \<Rightarrow> double" where
  "Math_round x = (case x of Finite q \<Rightarrow> Finite (of_int \<lfloor>q + 1 / 2\<rfloor>) | _ \<Rightarrow> x)"

section \<open>PhaseOrchestrator: weighted progress\<close>

text \<open>
  The five report phases, in the key order of the \<open>PHASE_CONFIG\<close> object literal of
  \<open>reporting.tsx\<close>. A weight is the double its decimal literal denotes.
\<close>

datatype PhaseKey = initialization | data_gathering | info_retrieval | pdf_generation | success

fun PHASE_CONFIG :: "PhaseKey \<Rightarrow> double" where
  "PHASE_CONFIG initialization = roundToDouble (5 / 100)"
| "PHASE_CONFIG data_gathering = roundToDouble (65 / 100)"
| "PHASE_CONFIG info_retrieval = roundToDouble (20 / 100)"
| "PHASE_CONFIG pdf_generation = roundToDouble (5 / 100)"
| "PHASE_CONFIG success = roundToDouble (5 / 100)"

text \<open>\<open>Object.keys(PHASE_CONFIG)\<close>: the keys in insertion order.\<close>

definition phaseKeys :: "PhaseKey list" where
  "phaseKeys = [initialization, data_gathering, info_retrieval, pdf_generation, success]"

text \<open>\<open>Array.prototype.indexOf\<close>: the first position of the element, \<open>-1\<close> when absent.\<close>

fun indexOf :: "'a list \<Rightarrow> 'a \<Rightarrow> int" where
  "indexOf [] y = - 1"
| "indexOf (x # xs) y =
     (if x = y then 0 else (let r = indexOf xs y in if r < 0 then - 1 else r + 1))"

text \<open>\<open>xs.slice(0, e)\<close>: a negative end counts from the end of the array.\<close>

definition slice0 :: "'a list \<Rightarrow> int \<Rightarrow> 'a list" where
  "slice0 xs e = (if e < 0 then take (nat (int (length xs) + e)) xs else take (nat e) xs)"

definition calculateProgress :: "PhaseKey \<Rightarrow> double \<Rightarrow> double" where
  "calculateProgress phase phaseProgress =
     (let currentIndex = indexOf phaseKeys phase;
          accumulated = foldl (\<lambda>sum key. add_double sum (PHASE_CONFIG key)) (Finite 0)
                          (slice0 phaseKeys currentIndex);
          currentContribution =
            mul_double (PHASE_CONFIG phase) (Math_min (Finite 1) (Math_max (Finite 0) phaseProgress))
      in Math_round (mul_double (add_double accumulated currentContribution) (Finite 100)))"

text \<open>
  The reading of the specification. In double arithmetic: the position of a phase in the
  enumeration, the sum, from left to right, of the weights of the phases strictly before
  it, and the clamp to the unit interval. In exact arithmetic: the decimal weights, their
  sums before and through a phase, and the progress formula over the real numbers, with
  \<open>round\<close> sending a tie up as \<open>Math.round\<close> does.
\<close>

fun phase_position :: "PhaseKey \<Rightarrow> nat" where
  "phase_position initialization = 0"
| "phase_position data_gathering = 1"
| "phase_position info_retrieval = 2"
| "phase_position pdf_generation = 3"
| "phase_position success = 4"

definition accumulated_before :: "PhaseKey \<Rightarrow> double" where
  "accumulated_before p =
     foldl add_double (Finite 0)
       (map PHASE_CONFIG (filter (\<lambda>q. phase_position q < phase_position p) phaseKeys))"

definition clamp01 :: "double \<Rightarrow> double" where
  "clamp01 x = (if less_double x (Finite 0) then Finite 0
                else if less_double (Finite 1) x then Finite 1 else x)"

fun decimal_weight :: "PhaseKey \<Rightarrow> real" where
  "decimal_weight initialization = 5 / 100"
| "decimal_weight data_gathering = 65 / 100"
| "decimal_weight info_retrieval = 20 / 100"
| "decimal_weight pdf_generation = 5 / 100"
| "decimal_weight success = 5 / 100"

definition weight_before :: "PhaseKey \<Rightarrow> real" where
  "weight_before p =
     sum_list (map decimal_weight (filter (\<lambda>q. phase_position q < phase_position p) phaseKeys))"

definition weight_through :: "PhaseKey \<Rightarrow> real" where
  "weight_through p =
     sum_list (map decimal_weight (filter (\<lambda>q. phase_position q \<le> phase_position p) phaseKeys))"

definition exact_progress :: "PhaseKey \<Rightarrow> real \<Rightarrow> int" where
  "exact_progress p x = round ((weight_before p + decimal_weight p * min 1 (max 0 x)) * 100)"

section \<open>Failures\<close>

text \<open>
  What a rejected promise or a thrown error carries, as far as the theorems tell them
  apart.
\<close>

datatype error = NoValidPanels | CaptureFailure | TypeError | Failure jsString

section \<open>PhaseOrchestrator: phase execution and duration history\<close>

text \<open>
  The state of a \<open>ReportingService\<close> as far as the phases touch it. \<open>phaseTracker\<close> is
  declared without an initial value (\<open>None\<close> until the first phase). \<open>phaseHistory\<close> is the
  \<open>Map\<close> from phase to its array of durations. \<open>getPhaseHistory\<close> hands out the stored
  array itself, or a new empty array when the phase has none: \<open>durationsRef\<close> keeps that
  difference for the tracker, which holds the array by reference. \<open>shownModals\<close> lists
  the calls of \<open>showModal\<close>; a message is named by its translation id.
\<close>

datatype durationsRef = HistoryOf PhaseKey | FreshArray

record PhaseTracking =
  phase :: PhaseKey
  startTime :: int
  historicalDurations :: durationsRef

datatype modalKind = ModalLoading | ModalError | ModalSuccess

record PhaseMessage =
  message :: jsString
  isSuccess :: bool

fun phaseMessages :: "PhaseKey \<Rightarrow> PhaseMessage" where
  "phaseMessages initialization = \<lparr>message = js ''pdfReport.initialization'', isSuccess = False\<rparr>"
| "phaseMessages data_gathering = \<lparr>message = js ''pdfReport.gatheringData'', isSuccess = False\<rparr>"
| "phaseMessages info_retrieval = \<lparr>message = js ''pdfReport.infoRetrieval'', isSuccess = False\<rparr>"
| "phaseMessages pdf_generation = \<lparr>message = js ''pdfReport.generatingPDF'', isSuccess = False\<rparr>"
| "phaseMessages success = \<lparr>message = js ''pdfReport.success'', isSuccess = True\<rparr>"

record service =
  modalHandlers :: bool
  phaseTracker :: "PhaseTracking option"
  phaseHistory :: "PhaseKey \<Rightarrow> int list option"
  lastPhaseProgress :: double
  tenantName :: jsString
  completeName :: jsString
  dashboardName :: jsString
  shownModals :: "(jsString \<times> modalKind \<times> double) list"

definition getPhaseHistory :: "service \<Rightarrow> PhaseKey \<Rightarrow> int list" where
  "getPhaseHistory s phaseKey = (case phaseHistory s phaseKey of Some history \<Rightarrow> history | None \<Rightarrow> [])"

definition getPhaseHistoryRef :: "service \<Rightarrow> PhaseKey \<Rightarrow> durationsRef" where
  "getPhaseHistoryRef s phaseKey =
     (case phaseHistory s phaseKey of Some history \<Rightarrow> HistoryOf phaseKey | None \<Rightarrow> FreshArray)"

text \<open>\<open>history.shift()\<close> removes the first element, \<open>history.push(d)\<close> appends.\<close>

definition updatePhaseHistory :: "PhaseKey \<Rightarrow> int \<Rightarrow> service \<Rightarrow> service" where
  "updatePhaseHistory phaseKey duration s =
     (let history = getPhaseHistory s phaseKey;
          history = (if length history \<ge> 10 then tl history else history);
          history = history @ [duration]
      in s\<lparr>phaseHistory := (phaseHistory s)(phaseKey \<mapsto> history)\<rparr>)"

text \<open>
  \<open>updateModalProgress\<close> reads \<open>this.phaseTracker.phase\<close>, a \<open>TypeError\<close> while the tracker
  is unassigned.
\<close>

definition updateModalProgress :: "service \<Rightarrow> (error + unit) \<times> service" where
  "updateModalProgress s =
     (if \<not> modalHandlers s then (Inr (), s)
      else (let currentProgress = Math_max (Finite 0) (Math_min (Finite 100) (lastPhaseProgress s))
            in case phaseTracker s of
                 None \<Rightarrow> (Inl TypeError, s)
               | Some tracker \<Rightarrow>
                   (let m = phaseMessages (phase tracker)
                    in (Inr (), s\<lparr>shownModals := shownModals s @
                          [(message m, if isSuccess m then ModalSuccess else ModalLoading,
                            currentProgress)]\<rparr>))))"

definition updateProgress :: "PhaseKey \<Rightarrow> double \<Rightarrow> service \<Rightarrow> (error + unit) \<times> service" where
  "updateProgress phaseKey phaseProgress s =
     updateModalProgress (s\<lparr>lastPhaseProgress := calculateProgress phaseKey phaseProgress\<rparr>)"

text \<open>
  \<open>executePhase\<close>. The awaited operation is a function of the service state that returns
  its result or its failure; \<open>now0\<close> and \<open>now1\<close> are what \<open>Date.now()\<close> returns at the start
  and when the duration is recorded. Every failure inside the \<open>try\<close> block reaches the
  \<open>catch\<close> block, which records the duration and throws the failure again.
\<close>

definition executePhase ::
  "PhaseKey \<Rightarrow> (service \<Rightarrow> (error + 'a) \<times> service) \<Rightarrow> int \<Rightarrow> int \<Rightarrow> service
     \<Rightarrow> (error + 'a) \<times> service" where
  "executePhase phaseKey operation now0 now1 s =
     (let startTime = now0;
          s0 = s\<lparr>phaseTracker := Some \<lparr>phase = phaseKey, startTime = startTime,
                    historicalDurations = getPhaseHistoryRef s phaseKey\<rparr>\<rparr>
      in case updateProgress phaseKey (Finite 0) s0 of
           (Inl err, s1) \<Rightarrow> (Inl err, updatePhaseHistory phaseKey (now1 - startTime) s1)
         | (Inr u, s1) \<Rightarrow>
             (case operation s1 of
                (Inl err, s2) \<Rightarrow> (Inl err, updatePhaseHistory phaseKey (now1 - startTime) s2)
              | (Inr result, s2) \<Rightarrow>
                  (case updateProgress phaseKey (Finite 1) s2 of
                     (Inl err, s3) \<Rightarrow> (Inl err, updatePhaseHistory phaseKey (now1 - startTime) s3)
                   | (Inr u, s3) \<Rightarrow> (Inr result, updatePhaseHistory phaseKey (now1 - startTime) s3))))"

text \<open>A sequence of \<open>executePhase\<close> calls on one service, whatever each call returns.\<close>

fun executePhases ::
  "(PhaseKey \<times> (service \<Rightarrow> (error + 'a) \<times> service) \<times> int \<times> int) list \<Rightarrow> service \<Rightarrow> service" where
  "executePhases [] s = s"
| "executePhases ((phaseKey, operation, now0, now1) # calls) s =
     executePhases calls (snd (executePhase phaseKey operation now0 now1 s))"

text \<open>An operation that leaves the duration histories alone, as the five phase handlers do.\<close>

definition keepsHistory :: "(service \<Rightarrow> (error + 'a) \<times> service) \<Rightarrow> bool" where
  "keepsHistory operation = (\<forall>s. phaseHistory (snd (operation s)) = phaseHistory s)"

text \<open>
  The field initialisers of the class, and \<open>setModalHandlers\<close> as far as the model keeps
  the handlers: that they are there.
\<close>

definition newService :: service where
  "newService = \<lparr>modalHandlers = False, phaseTracker = None, phaseHistory = (\<lambda>k. None),
                  lastPhaseProgress = Finite 0, tenantName = js ''Organization ID'',
                  completeName = js ''Organization ID'', dashboardName = js ''Dashboard'',
                  shownModals = []\<rparr>"

definition setModalHandlers :: "service \<Rightarrow> service" where
  "setModalHandlers s = s\<lparr>modalHandlers := True\<rparr>"

text \<open>
  The state in which \<open>executePhase\<close> calls the operation: the tracker replaced and the
  progress set to the start of the phase.
\<close>

definition beginPhase :: "PhaseKey \<Rightarrow> int \<Rightarrow> service \<Rightarrow> service" where
  "beginPhase phaseKey now0 s =
     snd (updateProgress phaseKey (Finite 0)
            (s\<lparr>phaseTracker := Some \<lparr>phase = phaseKey, startTime = now0,
                  historicalDurations = getPhaseHistoryRef s phaseKey\<rparr>\<rparr>))"

definition historyBounded :: "service \<Rightarrow> bool" where
  "historyBounded s = list_all (\<lambda>k. length (getPhaseHistory s k) \<le> 10) phaseKeys"

section \<open>The page: panels and inline styles\<close>

text \<open>
  What the service reads from a dashboard panel (an element carrying
  \<open>data-test-embeddable-id\<close>): which of the selectors it probes have a match below the
  panel, the title sources, the empty-chart container, the paragraphs, and the two
  ancestors whose inline style the layout normalisation rewrites.
\<close>

type_synonym elem = nat

datatype selector =
    VisChart | Arcs | TvbVisTimeSeries | VisAxisY | TvbVisTopN | OsdRedirectCrossAppLinks
  | TvbSplitVis | VisChartVgaVis | TableView | MtrVis | TableVis | TgcChart | TsvbMarkdown
  | MarkdownVis | DiscoverTable | IcvContainer

record panel =
  embeddableId :: jsString
  matched :: "selector list"
  dataTitle :: "jsString option"
  embPanelTitleText :: "jsString option"
  tvbVisHasChildNodes :: "bool option"
  paragraphs :: "jsString list"
  reactGridItem :: "elem option"
  embPanel :: "elem option"

text \<open>\<open>panel.querySelector(selector)\<close>, as far as the service uses it: is there a match.\<close>

definition querySelector :: "panel \<Rightarrow> selector \<Rightarrow> bool" where
  "querySelector p sel = (sel \<in> set (matched p))"

record document =
  panelElements :: "panel list"
  breadcrumb :: "jsString option"
  datePickerRange :: bool

subsection \<open>PanelDiscoveryAndValidator\<close>

definition isExcludedPanelType :: "panel \<Rightarrow> bool" where
  "isExcludedPanelType p =
     (let excludedSelectors = [MarkdownVis, DiscoverTable, IcvContainer]
      in list_ex (\<lambda>sel. querySelector p sel) excludedSelectors)"

definition isEmptyPanel :: "panel \<Rightarrow> bool" where
  "isEmptyPanel p =
     (case tvbVisHasChildNodes p of None \<Rightarrow> False | Some hasChildNodes \<Rightarrow> \<not> hasChildNodes)"

definition hasNoDataMessage :: "panel \<Rightarrow> bool" where
  "hasNoDataMessage p =
     (let messages = [js ''No data to display for the selected metrics'', js ''No results found'']
      in list_ex (\<lambda>el. trim el \<in> set messages) (paragraphs p))"

definition isValidPanel :: "panel \<Rightarrow> bool" where
  "isValidPanel p = (\<not> isExcludedPanelType p \<and> \<not> isEmptyPanel p \<and> \<not> hasNoDataMessage p)"

definition getValidPanels :: "document \<Rightarrow> panel list" where
  "getValidPanels doc = filter isValidPanel (panelElements doc)"

record titledPanel =
  entryPanel :: panel
  entryTitle :: jsString

text \<open>
  \<open>validatePanels\<close>: the callback of \<open>map\<close> gives an entry or \<open>null\<close>, and \<open>filter\<close> keeps
  the entries.
\<close>

definition panelTitleEntry :: "panel \<Rightarrow> titledPanel option" where
  "panelTitleEntry p =
     (case or_else (or_else (dataTitle p) (map_option trim (embPanelTitleText p)))
             (Some (js ''[No Title]'')) of
        Some title \<Rightarrow> if title \<noteq> [] then Some \<lparr>entryPanel = p, entryTitle = title\<rparr> else None
      | None \<Rightarrow> None)"

definition validatePanels :: "panel list \<Rightarrow> titledPanel list" where
  "validatePanels panels =
     map the (filter (\<lambda>entry. entry \<noteq> None) (map panelTitleEntry panels))"

section \<open>Visualization entries and captures\<close>

datatype vizType =
    TableOfContents | DashboardTitle | Header | Visualization | visualizationTitle
  | PageBreak | PageFooter

record VisualizationData =
  vizId :: jsString
  vizTitle :: jsString
  vizType :: vizType
  vizData :: jsString
  pageNumber :: "nat option"

record footer =
  footerTitle :: jsString
  footerOrganization :: jsString
  footerDate :: jsString
  displayPage :: int
  displayTotalPages :: int

text \<open>
  The elements handed to \<open>capturePanelScreenshot\<close>. The raster work is html2canvas's; the
  model takes the outcome of each capture from \<open>env\<close>: the data URL, or \<open>None\<close> when the
  promise rejects. The optional \<open>progressCallback\<close> of the functions below is left out: it
  is absent in the model's calls, and where the service passes one it writes the progress
  fields of the service only.
\<close>

datatype captureTarget =
    DashboardTitleElement jsString
  | TimeRangeElement
  | PanelElement panel
  | DataTitleElement jsString
  | FooterElement footer
  | TocElement "(jsString \<times> int) list"

record env =
  capturePanelScreenshot :: "captureTarget \<Rightarrow> jsString option"
  today :: jsString

definition createMainVisualization :: "jsString \<Rightarrow> jsString \<Rightarrow> jsString \<Rightarrow> VisualizationData" where
  "createMainVisualization panelId title screenshot =
     \<lparr>vizId = panelId, vizTitle = title, vizType = Visualization, vizData = screenshot,
      pageNumber = None\<rparr>"

definition pageBreakMarker :: "nat \<Rightarrow> VisualizationData" where
  "pageBreakMarker index =
     \<lparr>vizId = js ''page-break-'' @ toString index, vizTitle = [], vizType = PageBreak,
      vizData = [], pageNumber = None\<rparr>"

text \<open>
  \<open>addPageBreaks\<close> pushes onto the array it is given; the model returns the array after
  the call. The index and the panel count are array positions and lengths, the arithmetic
  is the integer one.
\<close>

definition addPageBreaks :: "VisualizationData list \<Rightarrow> nat \<Rightarrow> nat \<Rightarrow> VisualizationData list" where
  "addPageBreaks visualizations index totalPanels =
     (if (int index + 1) mod 2 = 0 \<and> int index \<noteq> int totalPanels - 1
      then visualizations @ [pageBreakMarker index]
      else visualizations)"

definition getPanelTitle :: "panel \<Rightarrow> jsString" where
  "getPanelTitle p = or_default (map_option trim (embPanelTitleText p)) (js ''Untitled Panel'')"

definition getPanelId :: "panel \<Rightarrow> jsString" where
  "getPanelId p = or_default (Some (embeddableId p)) (js ''unknown'')"

definition createDataTitleVisualization :: "env \<Rightarrow> panel \<Rightarrow> jsString \<Rightarrow> VisualizationData option" where
  "createDataTitleVisualization e p panelId =
     (let dataTitleText = or_default (dataTitle p) (js ''[No Title]'')
      in case capturePanelScreenshot e (DataTitleElement dataTitleText) of
           Some titleScreenshot \<Rightarrow>
             Some \<lparr>vizId = panelId @ js ''-title'', vizTitle = dataTitleText,
                   vizType = visualizationTitle, vizData = titleScreenshot, pageNumber = None\<rparr>
         | None \<Rightarrow> None)"

text \<open>The callback of \<open>panels.map\<close> in \<open>processVisualizationPanels\<close>, for one panel.\<close>

definition processPanel :: "env \<Rightarrow> nat \<Rightarrow> panel \<Rightarrow> nat \<Rightarrow> error + VisualizationData list" where
  "processPanel e totalPanels panelElement index =
     (let panelId = getPanelId panelElement;
          title = getPanelTitle panelElement
      in case capturePanelScreenshot e (PanelElement panelElement) of
           None \<Rightarrow> Inl CaptureFailure
         | Some screenshot \<Rightarrow>
             (let visualizations =
                    (case createDataTitleVisualization e panelElement panelId of
                       Some dataTitleViz \<Rightarrow> [dataTitleViz]
                     | None \<Rightarrow> []);
                  visualizations = visualizations @ [createMainVisualization panelId title screenshot]
              in Inr (addPageBreaks visualizations index totalPanels)))"

text \<open>\<open>Promise.all\<close>: the results in the order of the promises, or a rejection.\<close>

fun promiseAll :: "(error + 'a) list \<Rightarrow> error + 'a list" where
  "promiseAll [] = Inr []"
| "promiseAll (Inl err # rs) = Inl err"
| "promiseAll (Inr r # rs) = (case promiseAll rs of Inl err \<Rightarrow> Inl err | Inr xs \<Rightarrow> Inr (r # xs))"

definition processVisualizationPanels :: "env \<Rightarrow> panel list \<Rightarrow> error + VisualizationData list list" where
  "processVisualizationPanels e panels =
     promiseAll (map (\<lambda>(panelElement, index). processPanel e (length panels) panelElement index)
                   (zip panels [0..<length panels]))"

subsection \<open>Reading the entries of one panel\<close>

text \<open>
  The entries \<open>processPanel\<close> has collected for a panel when it calls \<open>addPageBreaks\<close>:
  the optional title entry and the main visualization.
\<close>

definition panelEntries :: "env \<Rightarrow> panel \<Rightarrow> jsString \<Rightarrow> VisualizationData list" where
  "panelEntries e p screenshot =
     (case createDataTitleVisualization e p (getPanelId p) of
        Some dataTitleViz \<Rightarrow> [dataTitleViz]
      | None \<Rightarrow> [])
     @ [createMainVisualization (getPanelId p) (getPanelTitle p) screenshot]"

definition isPageBreak :: "VisualizationData \<Rightarrow> bool" where
  "isPageBreak v = (vizType v = PageBreak)"

section \<open>PaginationPlanner: page count\<close>

text \<open>
  \<open>calculateTotalPages\<close>: the count is a JavaScript number holding an integer (an array
  length at the only call site); the division is the real one (halving an integer of that
  size is exact in double arithmetic) and \<open>Math.ceil\<close> is \<open>ceiling\<close>.
\<close>

definition calculateTotalPages :: "int \<Rightarrow> int" where
  "calculateTotalPages validCount =
     (let visualizationsPerPage = (2::real);
          contentPages = (if validCount > 0
                          then 1 + \<lceil>(real_of_int validCount - 1) / visualizationsPerPage\<rceil>
                          else 0)
      in 3 + contentPages)"

subsection \<open>Footer images\<close>

text \<open>
  The loop of \<open>createFooterImages\<close>, from \<open>page\<close> up to and including \<open>totalPages\<close>. A capture
  that rejects leaves the loop through the \<open>finally\<close> block and rejects the whole call.
\<close>

definition createFooterElement :: "env \<Rightarrow> bool \<Rightarrow> jsString \<Rightarrow> jsString \<Rightarrow> int \<Rightarrow> int \<Rightarrow> footer" where
  "createFooterElement e allowTableOfContents organization title totalPages page =
     (let displayPage = (if allowTableOfContents then page else page - 1);
          displayTotalPages = (if allowTableOfContents then totalPages else totalPages - 1)
      in \<lparr>footerTitle = title, footerOrganization = organization, footerDate = today e,
          displayPage = displayPage, displayTotalPages = displayTotalPages\<rparr>)"

function createFooterLoop ::
  "env \<Rightarrow> bool \<Rightarrow> jsString \<Rightarrow> jsString \<Rightarrow> int \<Rightarrow> int \<Rightarrow> jsString list \<Rightarrow> error + jsString list" where
  "createFooterLoop e allowTableOfContents organization title totalPages page footerImages =
     (if page \<le> totalPages then
        (let footerElement =
               createFooterElement e allowTableOfContents organization title totalPages page
         in case capturePanelScreenshot e (FooterElement footerElement) of
              None \<Rightarrow> Inl CaptureFailure
            | Some footerImage \<Rightarrow>
                createFooterLoop e allowTableOfContents organization title totalPages (page + 1)
                  (footerImages @ [footerImage]))
      else Inr footerImages)"
  by pat_completeness auto
termination
  by (relation "measure (\<lambda>(e, a, organization, title, totalPages, page, imgs). nat (totalPages + 1 - page))")
     auto

definition createFooterImages ::
  "env \<Rightarrow> bool \<Rightarrow> jsString \<Rightarrow> jsString \<Rightarrow> int \<Rightarrow> error + jsString list" where
  "createFooterImages e allowTableOfContents organization title totalPages =
     createFooterLoop e allowTableOfContents organization title totalPages 0 []"

section \<open>LayoutNormalizer\<close>

text \<open>
  The inline style properties the normalisation touches, each a string (empty when the
  property is not set). \<open>OriginalStyles\<close> is the source's type of a snapshot, every
  property optional; the style blocks passed to \<open>Object.assign\<close> have the same shape.
\<close>

record inlineStyle =
  styleTop :: jsString
  styleLeft :: jsString
  styleWidth :: jsString
  styleHeight :: jsString
  stylePosition :: jsString
  styleVisibility :: jsString

record OriginalStyles =
  origTop :: "jsString option"
  origLeft :: "jsString option"
  origWidth :: "jsString option"
  origHeight :: "jsString option"
  origPosition :: "jsString option"
  origVisibility :: "jsString option"

text \<open>\<open>Object.assign(element.style, styles)\<close>: every property present in \<open>styles\<close> is written.\<close>

definition assignStyle :: "inlineStyle \<Rightarrow> OriginalStyles \<Rightarrow> inlineStyle" where
  "assignStyle st styles =
     \<lparr>styleTop = (case origTop styles of Some v \<Rightarrow> v | None \<Rightarrow> styleTop st),
      styleLeft = (case origLeft styles of Some v \<Rightarrow> v | None \<Rightarrow> styleLeft st),
      styleWidth = (case origWidth styles of Some v \<Rightarrow> v | None \<Rightarrow> styleWidth st),
      styleHeight = (case origHeight styles of Some v \<Rightarrow> v | None \<Rightarrow> styleHeight st),
      stylePosition = (case origPosition styles of Some v \<Rightarrow> v | None \<Rightarrow> stylePosition st),
      styleVisibility = (case origVisibility styles of Some v \<Rightarrow> v | None \<Rightarrow> styleVisibility st)\<rparr>"

text \<open>
  The page as the normalisation sees it: the inline style of every element, and the trace
  of what the run has done to its collaborators (the success toast, each snapshot stored,
  each call of the restore closure).
\<close>

datatype event = ToastSuccess | StyleSnapshot elem | LayoutRestored

record world =
  styles :: "elem \<Rightarrow> inlineStyle"
  events :: "event list"

definition setStyle :: "elem \<Rightarrow> OriginalStyles \<Rightarrow> world \<Rightarrow> world" where
  "setStyle element styleBlock w =
     w\<lparr>styles := (styles w)(element := assignStyle (styles w element) styleBlock)\<rparr>"

text \<open>
  \<open>storeAndApplyStyles\<close>, the local function of \<open>preparePanelDimensions\<close>. \<open>originalStyles\<close>
  is a \<open>Map\<close> keyed by element: \<open>set\<close> on a key already present replaces its value and
  keeps its place, which is \<open>AList.update\<close>.
\<close>

definition storeAndApplyStyles ::
  "panel \<Rightarrow> OriginalStyles \<Rightarrow> OriginalStyles \<Rightarrow> (elem \<times> OriginalStyles) list \<times> world
     \<Rightarrow> (elem \<times> OriginalStyles) list \<times> world" where
  "storeAndApplyStyles p rootStyles embPanelStyles state =
     (case state of (originalStyles, w) \<Rightarrow>
        (case (reactGridItem p, embPanel p) of
           (Some rootElement, Some embPanelElement) \<Rightarrow>
             (let originalStyles = AList.update rootElement
                    \<lparr>origTop = Some (styleTop (styles w rootElement)),
                     origLeft = Some (styleLeft (styles w rootElement)),
                     origWidth = Some (styleWidth (styles w rootElement)),
                     origHeight = Some (styleHeight (styles w rootElement)),
                     origPosition = Some (stylePosition (styles w rootElement)),
                     origVisibility = Some (styleVisibility (styles w rootElement))\<rparr> originalStyles;
                  originalStyles = AList.update embPanelElement
                    \<lparr>origTop = None, origLeft = None,
                     origWidth = Some (styleWidth (styles w embPanelElement)),
                     origHeight = Some (styleHeight (styles w embPanelElement)),
                     origPosition = None, origVisibility = None\<rparr> originalStyles;
                  w = w\<lparr>events := events w @ [StyleSnapshot rootElement, StyleSnapshot embPanelElement]\<rparr>;
                  w = setStyle rootElement rootStyles w;
                  w = setStyle embPanelElement embPanelStyles w
              in (originalStyles, w))
         | _ \<Rightarrow> state))"

definition rootGeometry :: "jsString \<Rightarrow> jsString \<Rightarrow> jsString \<Rightarrow> jsString \<Rightarrow> OriginalStyles" where
  "rootGeometry t l wd h =
     \<lparr>origTop = Some t, origLeft = Some l, origWidth = Some wd, origHeight = Some h,
      origPosition = Some (js ''absolute''), origVisibility = Some (js ''hidden'')\<rparr>"

definition fullSize :: OriginalStyles where
  "fullSize = \<lparr>origTop = None, origLeft = None, origWidth = Some (js ''100%''),
               origHeight = Some (js ''100%''), origPosition = None, origVisibility = None\<rparr>"

text \<open>One \<open>forEach\<close> block of \<open>preparePanelDimensions\<close>.\<close>

definition forEachPanel ::
  "panel list \<Rightarrow> OriginalStyles \<Rightarrow> (elem \<times> OriginalStyles) list \<times> world
     \<Rightarrow> (elem \<times> OriginalStyles) list \<times> world" where
  "forEachPanel ps rootStyles state =
     foldl (\<lambda>st p. storeAndApplyStyles p rootStyles fullSize st) state ps"

text \<open>
  \<open>preparePanelDimensions\<close>: the probes, then the thirteen \<open>forEach\<close> blocks in the order
  of the source. The result is the \<open>Map\<close> the returned closure holds and the page after
  the style writes.
\<close>

definition preparePanelDimensions ::
  "panel list \<Rightarrow> world \<Rightarrow> (elem \<times> OriginalStyles) list \<times> world" where
  "preparePanelDimensions panels w =
     (let chartPanels = filter (\<lambda>p. querySelector p VisChart) panels;
          pieChartPanels = filter (\<lambda>p. querySelector p Arcs) chartPanels;
          tsvbPanels = filter (\<lambda>p. querySelector p TvbVisTimeSeries) chartPanels;
          barCharts = filter (\<lambda>p. querySelector p VisAxisY) chartPanels;
          topNCharts = filter (\<lambda>p. querySelector p TvbVisTopN) chartPanels;
          trendMetrics = filter (\<lambda>p. querySelector p OsdRedirectCrossAppLinks) chartPanels;
          tsvbMetrics = filter (\<lambda>p. querySelector p TvbSplitVis) chartPanels;
          mapCharts = filter (\<lambda>p. querySelector p VisChartVgaVis) chartPanels;
          tvbSplitVis = filter (\<lambda>p. querySelector p TvbSplitVis) chartPanels;
          tvbTableView = filter (\<lambda>p. querySelector p TableView) chartPanels;
          metricPanels = filter (\<lambda>p. querySelector p MtrVis) panels;
          tablePanels = filter (\<lambda>p. querySelector p TableVis) panels;
          cloudPanels = filter (\<lambda>p. querySelector p TgcChart) panels;
          markdownTsvbPanels = filter (\<lambda>p. querySelector p TsvbMarkdown) panels;
          state = ([], w);
          state = forEachPanel tsvbPanels (rootGeometry (js ''540px'') (js ''964px'') (js ''948px'') (js ''384px'')) state;
          state = forEachPanel barCharts (rootGeometry (js ''540px'') (js ''964px'') (js ''948px'') (js ''384px'')) state;
          state = forEachPanel pieChartPanels (rootGeometry (js ''540px'') (js ''964px'') (js ''640px'') (js ''440px'')) state;
          state = forEachPanel topNCharts (rootGeometry (js ''540px'') (js ''964px'') (js ''640px'') (js ''440px'')) state;
          state = forEachPanel trendMetrics (rootGeometry (js ''260px'') (js ''637px'') (js ''318px'') (js ''340px'')) state;
          state = forEachPanel tsvbMetrics (rootGeometry (js ''320px'') (js ''637px'') (js ''637px'') (js ''200px'')) state;
          state = forEachPanel metricPanels (rootGeometry (js ''700px'') (js ''637px'') (js ''637px'') (js ''220px'')) state;
          state = forEachPanel tablePanels (rootGeometry (js ''1600px'') (js ''955px'') (js ''955px'') (js ''540px'')) state;
          state = forEachPanel tvbSplitVis (rootGeometry (js ''1600px'') (js ''955px'') (js ''955px'') (js ''540px'')) state;
          state = forEachPanel tvbTableView (rootGeometry (js ''1600px'') (js ''955px'') (js ''955px'') (js ''540px'')) state;
          state = forEachPanel cloudPanels (rootGeometry (js ''540px'') (js ''964px'') (js ''948px'') (js ''384px'')) state;
          state = forEachPanel mapCharts (rootGeometry (js ''540px'') (js ''964px'') (js ''948px'') (js ''384px'')) state;
          state = forEachPanel markdownTsvbPanels (rootGeometry (js ''540px'') (js ''964px'') (js ''948px'') (js ''384px'')) state
      in state)"

text \<open>The closure returned by \<open>preparePanelDimensions\<close>, applied to the page.\<close>

definition restoreLayout :: "(elem \<times> OriginalStyles) list \<Rightarrow> world \<Rightarrow> world" where
  "restoreLayout originalStyles w =
     foldl (\<lambda>w (element, styleBlock). setStyle element styleBlock w)
       (w\<lparr>events := events w @ [LayoutRestored]\<rparr>) originalStyles"

subsection \<open>Reading the layout normalisation\<close>

text \<open>
  The elements a \<open>storeAndApplyStyles\<close> call writes for a panel; the calls
  \<open>preparePanelDimensions\<close> makes, in order, each with its geometry; their effect on the
  closure's \<open>Map\<close> and the page; and the relation between the state of a run and the page
  \<open>w0\<close> it started from under which the restore closure gives \<open>w0\<close>'s styles back.
\<close>

definition touched :: "panel \<Rightarrow> elem list" where
  "touched p = (case (reactGridItem p, embPanel p) of
                  (Some rootElement, Some embPanelElement) \<Rightarrow> [rootElement, embPanelElement]
                | _ \<Rightarrow> [])"

definition layoutCalls :: "panel list \<Rightarrow> (panel \<times> OriginalStyles) list" where
  "layoutCalls panels =
     (let chartPanels = filter (\<lambda>p. querySelector p VisChart) panels;
          block = (\<lambda>sel g ps. map (\<lambda>p. (p, g)) (filter (\<lambda>p. querySelector p sel) ps))
      in block TvbVisTimeSeries (rootGeometry (js ''540px'') (js ''964px'') (js ''948px'') (js ''384px'')) chartPanels
       @ block VisAxisY (rootGeometry (js ''540px'') (js ''964px'') (js ''948px'') (js ''384px'')) chartPanels
       @ block Arcs (rootGeometry (js ''540px'') (js ''964px'') (js ''640px'') (js ''440px'')) chartPanels
       @ block TvbVisTopN (rootGeometry (js ''540px'') (js ''964px'') (js ''640px'') (js ''440px'')) chartPanels
       @ block OsdRedirectCrossAppLinks (rootGeometry (js ''260px'') (js ''637px'') (js ''318px'') (js ''340px'')) chartPanels
       @ block TvbSplitVis (rootGeometry (js ''320px'') (js ''637px'') (js ''637px'') (js ''200px'')) chartPanels
       @ block MtrVis (rootGeometry (js ''700px'') (js ''637px'') (js ''637px'') (js ''220px'')) panels
       @ block TableVis (rootGeometry (js ''1600px'') (js ''955px'') (js ''955px'') (js ''540px'')) panels
       @ block TvbSplitVis (rootGeometry (js ''1600px'') (js ''955px'') (js ''955px'') (js ''540px'')) chartPanels
       @ block TableView (rootGeometry (js ''1600px'') (js ''955px'') (js ''955px'') (js ''540px'')) chartPanels
       @ block TgcChart (rootGeometry (js ''540px'') (js ''964px'') (js ''948px'') (js ''384px'')) panels
       @ block VisChartVgaVis (rootGeometry (js ''540px'') (js ''964px'') (js ''948px'') (js ''384px'')) chartPanels
       @ block TsvbMarkdown (rootGeometry (js ''540px'') (js ''964px'') (js ''948px'') (js ''384px'')) panels)"

definition applyCalls ::
  "(panel \<times> OriginalStyles) list \<Rightarrow> (elem \<times> OriginalStyles) list \<times> world
     \<Rightarrow> (elem \<times> OriginalStyles) list \<times> world" where
  "applyCalls calls state = foldl (\<lambda>st (p, g). storeAndApplyStyles p g fullSize st) state calls"

definition restorable :: "world \<Rightarrow> (elem \<times> OriginalStyles) list \<times> world \<Rightarrow> bool" where
  "restorable w0 state =
     (case state of (originalStyles, w) \<Rightarrow>
        distinct (map fst originalStyles)
      \<and> (\<forall>x. x \<notin> fst ` set originalStyles \<longrightarrow> styles w x = styles w0 x)
      \<and> (\<forall>x snap. (x, snap) \<in> set originalStyles \<longrightarrow> assignStyle (styles w x) snap = styles w0 x))"

section \<open>Collecting the visualization data\<close>

definition getDashboardTitleText :: "document \<Rightarrow> jsString" where
  "getDashboardTitleText doc =
     (case breadcrumb doc of
        None \<Rightarrow> js ''Dashboard Report''
      | Some textContent \<Rightarrow> or_default (Some (trim textContent)) (js ''Dashboard Report''))"

definition processDashboardTitle :: "env \<Rightarrow> document \<Rightarrow> jsString \<times> jsString" where
  "processDashboardTitle e doc =
     (let titleText = getDashboardTitleText doc
      in case capturePanelScreenshot e (DashboardTitleElement titleText) of
           Some dashboardTitleImage \<Rightarrow> (titleText, dashboardTitleImage)
         | None \<Rightarrow> (titleText, []))"

definition captureTimeRange :: "env \<Rightarrow> document \<Rightarrow> error + jsString" where
  "captureTimeRange e doc =
     (if \<not> datePickerRange doc then Inr []
      else case capturePanelScreenshot e TimeRangeElement of
             Some img \<Rightarrow> Inr img
           | None \<Rightarrow> Inl CaptureFailure)"

definition generateTocItems :: "titledPanel list \<Rightarrow> int \<Rightarrow> (jsString \<times> int) list" where
  "generateTocItems validPanels totalPages =
     [(js ''Cover Page'', 1), (js ''Report Contents'', 2)]
     @ map (\<lambda>(validPanel, index). (entryTitle validPanel, 3 + (int index + 1) div 2))
         (zip validPanels [0..<length validPanels])
     @ [(js ''Appendix'', totalPages)]"

definition processTableOfContents :: "env \<Rightarrow> titledPanel list \<Rightarrow> int \<Rightarrow> jsString" where
  "processTableOfContents e validPanels totalPages =
     (case capturePanelScreenshot e (TocElement (generateTocItems validPanels totalPages)) of
        Some img \<Rightarrow> img
      | None \<Rightarrow> [])"

definition createTocVisualization :: "jsString \<Rightarrow> VisualizationData" where
  "createTocVisualization tocImage =
     \<lparr>vizId = js ''report-toc'', vizTitle = js ''Table of Contents'', vizType = TableOfContents,
      vizData = tocImage, pageNumber = None\<rparr>"

definition createDashboardTitleVisualization :: "jsString \<Rightarrow> VisualizationData" where
  "createDashboardTitleVisualization img =
     \<lparr>vizId = js ''dashboard-title'', vizTitle = js ''Dashboard Title'', vizType = DashboardTitle,
      vizData = img, pageNumber = None\<rparr>"

definition createTimeRangeVisualization :: "jsString \<Rightarrow> VisualizationData" where
  "createTimeRangeVisualization img =
     \<lparr>vizId = js ''time-range'', vizTitle = js ''Time Range'', vizType = Header,
      vizData = img, pageNumber = None\<rparr>"

definition createPageFooters :: "jsString list \<Rightarrow> VisualizationData list" where
  "createPageFooters images =
     map (\<lambda>(img, index).
            \<lparr>vizId = js ''footer-page-'' @ toString (index + 1), vizTitle = js ''Page Footer'',
             vizType = PageFooter, vizData = img, pageNumber = Some (index + 1)\<rparr>)
       (zip images [0..<length images])"

definition assembleFinalVisualizations ::
  "env \<Rightarrow> jsString \<Rightarrow> jsString \<Rightarrow> VisualizationData list list \<Rightarrow> jsString list \<Rightarrow> titledPanel list
     \<Rightarrow> int \<Rightarrow> VisualizationData list" where
  "assembleFinalVisualizations e dashboardTitleImage timeRangeImage panelVisualizations
       footerImages validPanels totalPages =
     (let tocImage = processTableOfContents e validPanels totalPages;
          flattened = concat panelVisualizations
      in [createTocVisualization tocImage] @ createPageFooters footerImages
         @ [createDashboardTitleVisualization dashboardTitleImage,
            createTimeRangeVisualization timeRangeImage]
         @ flattened)"

text \<open>
  The \<open>try\<close> block of \<open>getVisualizationData\<close>. A capture hides the element it is given and
  puts its visibility back before it returns; it writes no style of the grid cells, so
  the block is a function of the captures' outcomes.
\<close>

definition collectVisualizations ::
  "env \<Rightarrow> document \<Rightarrow> panel list \<Rightarrow> bool \<Rightarrow> jsString \<Rightarrow> error + VisualizationData list" where
  "collectVisualizations e doc panels allowTableOfContents organization =
     (case processDashboardTitle e doc of (titleText, dashboardTitleImage) \<Rightarrow>
      case captureTimeRange e doc of
        Inl err \<Rightarrow> Inl err
      | Inr timeRangeImage \<Rightarrow>
          (case processVisualizationPanels e panels of
             Inl err \<Rightarrow> Inl err
           | Inr panelVisualizations \<Rightarrow>
               (let validPanels = validatePanels panels;
                    totalPages = calculateTotalPages (int (length validPanels))
                in case createFooterImages e allowTableOfContents organization titleText totalPages of
                     Inl err \<Rightarrow> Inl err
                   | Inr footerImages \<Rightarrow>
                       Inr (assembleFinalVisualizations e dashboardTitleImage timeRangeImage
                              panelVisualizations footerImages validPanels totalPages))))"

text \<open>
  \<open>getVisualizationData\<close>: the error for an empty panel list, the success toast, the
  layout normalisation, the \<open>try\<close> block, and the \<open>finally\<close> block that calls the restore
  closure on either outcome.
\<close>

definition getVisualizationData ::
  "env \<Rightarrow> document \<Rightarrow> bool \<Rightarrow> jsString \<Rightarrow> world \<Rightarrow> (error + VisualizationData list) \<times> world" where
  "getVisualizationData e doc allowTableOfContents organization w =
     (let panels = getValidPanels doc
      in if length panels = 0 then (Inl NoValidPanels, w)
         else (let w = w\<lparr>events := events w @ [ToastSuccess]\<rparr>
               in case preparePanelDimensions panels w of (originalStyles, w) \<Rightarrow>
                    (let result = collectVisualizations e doc panels allowTableOfContents organization;
                         w = restoreLayout originalStyles w
                     in (result, w))))"

section \<open>CaptureOrchestrator: profiles and the near-white snap\<close>

text \<open>
  The four branches of \<open>capturePanelScreenshot\<close> after the clone has been prepared, chosen
  by the three structural tests in the order of the \<open>if\<close> chain.
\<close>

datatype captureProfile = ArcProfile | TimeSeriesProfile | MetricProfile | DefaultProfile

definition selectProfile :: "bool \<Rightarrow> bool \<Rightarrow> bool \<Rightarrow> captureProfile" where
  "selectProfile hasArcElements isTimeSeriesChart hasMetrics =
     (if hasArcElements then ArcProfile
      else if isTimeSeriesChart then TimeSeriesProfile
      else if hasMetrics then MetricProfile
      else DefaultProfile)"

text \<open>
  The pixel data of a canvas is a \<open>Uint8ClampedArray\<close>: bytes, four per pixel (red, green,
  blue, alpha). A read beyond the end gives \<open>undefined\<close>, and \<open>undefined > 240\<close> is false; a
  write beyond the end is ignored, as \<open>list_update\<close> does.
\<close>

type_synonym byte = "8 word"

definition channelAbove240 :: "byte list \<Rightarrow> nat \<Rightarrow> bool" where
  "channelAbove240 data j = (j < length data \<and> 240 < data ! j)"

function nearWhiteSnap :: "nat \<Rightarrow> byte list \<Rightarrow> byte list" where
  "nearWhiteSnap i data =
     (if i < length data then
        (if channelAbove240 data i \<and> channelAbove240 data (i + 1) \<and> channelAbove240 data (i + 2)
         then nearWhiteSnap (i + 4) (data[i + 2 := 255, i + 1 := 255, i := 255])
         else nearWhiteSnap (i + 4) data)
      else data)"
  by pat_completeness auto
termination
  by (relation "measure (\<lambda>(i, data). length data - i)") auto

text \<open>
  What the branch does to the pixel data html2canvas has produced: only the default
  profile, and only with a 2d context, rewrites it.
\<close>

definition postProcessCanvas :: "captureProfile \<Rightarrow> bool \<Rightarrow> byte list \<Rightarrow> byte list" where
  "postProcessCanvas profile hasContext data =
     (if profile = DefaultProfile \<and> hasContext then nearWhiteSnap 0 data else data)"

text \<open>Reading pixel \<open>k\<close> of the data, and the snap as the specification words it.\<close>

definition pixelAt :: "byte list \<Rightarrow> nat \<Rightarrow> byte \<times> byte \<times> byte \<times> byte" where
  "pixelAt data k = (data ! (4 * k), data ! (4 * k + 1), data ! (4 * k + 2), data ! (4 * k + 3))"

fun snapPixel :: "byte \<times> byte \<times> byte \<times> byte \<Rightarrow> byte \<times> byte \<times> byte \<times> byte" where
  "snapPixel (r, g, b, a) = (if 240 < r \<and> 240 < g \<and> 240 < b then (255, 255, 255, a) else (r, g, b, a))"

definition quad :: "byte list \<Rightarrow> nat \<Rightarrow> byte \<times> byte \<times> byte \<times> byte" where
  "quad data off = (data ! off, data ! (off + 1), data ! (off + 2), data ! (off + 3))"

section \<open>Tenant name and cover page\<close>

text \<open>
  \<open>toUpperCase\<close> and \<open>toLowerCase\<close> are the engine's: they follow the case-mapping tables
  of Unicode, which are no part of the source, they see the whole string, and they may
  change its length (\<open>toUpperCase\<close> turns the sharp s into \<open>SS\<close>). The model takes the two
  functions as given.
\<close>

record caseMapping =
  toUpperCase :: "jsString \<Rightarrow> jsString"
  toLowerCase :: "jsString \<Rightarrow> jsString"

text \<open>\<open>str.charAt(i)\<close>: the unit at \<open>i\<close> as a string, the empty string beyond the end.\<close>

definition charAt :: "jsString \<Rightarrow> nat \<Rightarrow> jsString" where
  "charAt str i = (if i < length str then [str ! i] else [])"

definition capitalizeFirstLetter :: "caseMapping \<Rightarrow> jsString \<Rightarrow> jsString" where
  "capitalizeFirstLetter cm str = toUpperCase cm (charAt str 0) @ toLowerCase cm (drop 1 str)"



definition MAX_TENANT_NAME_LENGTH :: nat where
  "MAX_TENANT_NAME_LENGTH = 29"


text \<open>
  The callback made by \<open>createProgressHandler\<close>, at its \<open>currentStep\<close>-th call. The counter
  is a number: \<open>currentStep++\<close> counts up to \<open>2^53\<close> and leaves it there.
\<close>

definition stepNumber :: "nat \<Rightarrow> double" where
  "stepNumber currentStep = Finite (real (min currentStep (2 ^ 53)))"



text \<open>
  \<open>formatOrganizationName\<close>. The character class of the regular expression keeps the
  letters \<open>a\<close> to \<open>z\<close> and \<open>A\<close> to \<open>Z\<close>, the digits, the seven German letters (U+00E4,
  U+00FC, U+00F6, U+00C4, U+00DC, U+00D6, U+00DF), the full stop and \<open>\s\<close>.
\<close>

definition allowedNameChar :: "codeUnit \<Rightarrow> bool" where
  "allowedNameChar c =
     ((0x61 \<le> c \<and> c \<le> 0x7A) \<or> (0x41 \<le> c \<and> c \<le> 0x5A) \<or> (0x30 \<le> c \<and> c \<le> 0x39)
      \<or> c \<in> set [0xE4, 0xFC, 0xF6, 0xC4, 0xDC, 0xD6, 0xDF] \<or> c = 0x2E \<or> isWhiteSpace c)"

text \<open>\<open>s.lastIndexOf(c, fromIndex)\<close>: the last position up to \<open>fromIndex\<close>, or \<open>-1\<close>.\<close>

fun lastIndexOf :: "jsString \<Rightarrow> codeUnit \<Rightarrow> nat \<Rightarrow> int" where
  "lastIndexOf s c 0 = (if 0 < length s \<and> s ! 0 = c then 0 else - 1)"
| "lastIndexOf s c (Suc n) =
     (if Suc n < length s \<and> s ! Suc n = c then int (Suc n) else lastIndexOf s c n)"

definition formatOrganizationName :: "jsString \<Rightarrow> jsString" where
  "formatOrganizationName fullText =
     (let sanitized = filter allowedNameChar fullText
      in if length sanitized \<le> MAX_TENANT_NAME_LENGTH then sanitized
         else (let lastSpaceIndex = lastIndexOf sanitized 0x20 MAX_TENANT_NAME_LENGTH
               in if lastSpaceIndex = - 1 then sanitized
                  else take (nat lastSpaceIndex) sanitized @ [0x0A]
                       @ drop (nat (lastSpaceIndex + 1)) sanitized))"








section \<open>Example inputs\<close>

definition exampleEnv :: env where
  "exampleEnv = \<lparr>capturePanelScreenshot = (\<lambda>target. Some (js ''image'')), today = js ''03.11.2026''\<rparr>"

definition examplePanel :: "jsString \<Rightarrow> panel" where
  "examplePanel ident =
     \<lparr>embeddableId = ident, matched = [VisChart, VisAxisY], dataTitle = Some (js ''Sales''),
      embPanelTitleText = Some (js '' Sales per day ''), tvbVisHasChildNodes = None, paragraphs = [],
      reactGridItem = None, embPanel = None\<rparr>"

definition gridStyle :: inlineStyle where
  "gridStyle = \<lparr>styleTop = js ''10px'', styleLeft = js ''10px'', styleWidth = js ''600px'',
                 styleHeight = js ''300px'', stylePosition = js ''absolute'', styleVisibility = []\<rparr>"

definition dashboardWorld :: world where
  "dashboardWorld = \<lparr>styles = (\<lambda>element. gridStyle), events = []\<rparr>"

text \<open>
  A TSVB panel with a \<open>.visChart\<close> and a \<open>.tvbSplitVis\<close> descendant: the filters
  \<open>tsvbMetrics\<close> and \<open>tvbSplitVis\<close> use the same selector and both keep it.
\<close>

definition splitVisPanel :: panel where
  "splitVisPanel =
     \<lparr>embeddableId = js ''7'', matched = [VisChart, TvbSplitVis], dataTitle = Some (js ''Load''),
      embPanelTitleText = Some (js ''Load''), tvbVisHasChildNodes = None, paragraphs = [],
      reactGridItem = Some 0, embPanel = Some 1\<rparr>"

definition splitVisDashboard :: document where
  "splitVisDashboard = \<lparr>panelElements = [splitVisPanel], breadcrumb = Some (js ''Load report''),
                         datePickerRange = True\<rparr>"

definition markdownPanel :: panel where
  "markdownPanel =
     \<lparr>embeddableId = js ''1'', matched = [MarkdownVis], dataTitle = None,
      embPanelTitleText = None, tvbVisHasChildNodes = None, paragraphs = [],
      reactGridItem = Some 0, embPanel = Some 1\<rparr>"

definition noDataPanel :: panel where
  "noDataPanel =
     \<lparr>embeddableId = js ''2'', matched = [VisChart, VisAxisY], dataTitle = Some (js ''Sales''),
      embPanelTitleText = None, tvbVisHasChildNodes = None, paragraphs = [js '' No results found ''],
      reactGridItem = Some 2, embPanel = Some 3\<rparr>"

definition emptyDashboard :: document where
  "emptyDashboard = \<lparr>panelElements = [markdownPanel, noDataPanel], breadcrumb = Some (js ''Notes''),
                      datePickerRange = True\<rparr>"

definition failingOperation :: "service \<Rightarrow> (error + unit) \<times> service" where
  "failingOperation s = (Inl (Failure (js ''No Dashboard selected'')), s)"

definition fullHistoryService :: service where
  "fullHistoryService =
     (setModalHandlers newService)
       \<lparr>phaseHistory := (\<lambda>k. if k = data_gathering
                                then Some [1, 2, 3, 4, 5, 6, 7, 8, 9, 10] else None)\<rparr>"

text \<open>
  A case mapping that is the engine's on Basic Latin and on the German letters: the
  umlauts map to each other and the sharp s to \<open>SS\<close> in upper case.
\<close>

definition upperUnit :: "codeUnit \<Rightarrow> jsString" where
  "upperUnit c =
     (if (0x61 \<le> c \<and> c \<le> 0x7A) \<or> c \<in> set [0xE4, 0xF6, 0xFC] then [c - 0x20]
      else if c = 0xDF then [0x53, 0x53] else [c])"

definition lowerUnit :: "codeUnit \<Rightarrow> codeUnit" where
  "lowerUnit c =
     (if (0x41 \<le> c \<and> c \<le> 0x5A) \<or> c \<in> set [0xC4, 0xD6, 0xDC] then c + 0x20 else c)"

definition germanCaseMapping :: caseMapping where
  "germanCaseMapping =
     \<lparr>toUpperCase = (\<lambda>s. concat (map upperUnit s)), toLowerCase = (\<lambda>s. map lowerUnit s)\<rparr>"



section \<open>Weighted progress\<close>

declare bitLength.simps [simp del]

lemma bitLength_numeral:
  "bitLength 0 = 0"
  "bitLength 1 = 1"
  "bitLength (numeral Num.One) = 1"
  "bitLength (numeral (Num.Bit0 k)) = 1 + bitLength (numeral k)"
  "bitLength (numeral (Num.Bit1 k)) = 1 + bitLength (numeral k)"
  by (simp_all add: bitLength.simps [of 0] bitLength.simps [of 1]
        bitLength.simps [of "numeral Num.One"] bitLength.simps [of "numeral (Num.Bit0 k)"]
        bitLength.simps [of "numeral (Num.Bit1 k)"])

text \<open>The equations that evaluate an operation on given doubles.\<close>

lemmas double_eval =
  roundToDouble_def binaryExponent_def bitLength_numeral pow2_def roundHalfEven_def Let_def
  add_double_def mul_double_def div_double_def less_double_def Math_min_def Math_max_def
  Math_round_def

lemma PHASE_CONFIG_values:
  "PHASE_CONFIG initialization = Finite (3602879701896397 / 72057594037927936)"
  "PHASE_CONFIG data_gathering = Finite (5854679515581645 / 9007199254740992)"
  "PHASE_CONFIG info_retrieval = Finite (3602879701896397 / 18014398509481984)"
  "PHASE_CONFIG pdf_generation = Finite (3602879701896397 / 72057594037927936)"
  "PHASE_CONFIG success = Finite (3602879701896397 / 72057594037927936)"
  by (simp_all add: double_eval)

lemma add_double_zero:
  "add_double (Finite 0) (Finite (3602879701896397 / 72057594037927936))
     = Finite (3602879701896397 / 72057594037927936)"
  by (simp add: double_eval)

lemma add_double_data_gathering:
  "add_double (Finite (3602879701896397 / 72057594037927936))
     (Finite (5854679515581645 / 9007199254740992)) = Finite (6305039478318695 / 9007199254740992)"
  by (simp add: double_eval)

lemma add_double_info_retrieval:
  "add_double (Finite (6305039478318695 / 9007199254740992))
     (Finite (3602879701896397 / 18014398509481984)) = Finite (4053239664633447 / 4503599627370496)"
  by (simp add: double_eval)

lemma add_double_pdf_generation:
  "add_double (Finite (4053239664633447 / 4503599627370496))
     (Finite (3602879701896397 / 72057594037927936)) = Finite (1069604911500493 / 1125899906842624)"
  by (simp add: double_eval)

lemma add_double_success:
  "add_double (Finite (1069604911500493 / 1125899906842624))
     (Finite (3602879701896397 / 72057594037927936)) = Finite (4503599627370497 / 4503599627370496)"
  by (simp add: double_eval)

lemmas add_double_weights =
  add_double_zero add_double_data_gathering add_double_info_retrieval add_double_pdf_generation
  add_double_success

text \<open>
  The left-to-right double sums of the weights before each phase: 0, 0.05,
  0.7000000000000001, 0.9000000000000001 and 0.9500000000000002.
\<close>

lemma accumulated_before_values:
  "accumulated_before initialization = Finite 0"
  "accumulated_before data_gathering = Finite (3602879701896397 / 72057594037927936)"
  "accumulated_before info_retrieval = Finite (6305039478318695 / 9007199254740992)"
  "accumulated_before pdf_generation = Finite (4053239664633447 / 4503599627370496)"
  "accumulated_before success = Finite (1069604911500493 / 1125899906842624)"
  by (simp_all add: accumulated_before_def phaseKeys_def PHASE_CONFIG_values add_double_weights
        del: PHASE_CONFIG.simps)

lemma accumulated_eq_accumulated_before:
  "foldl (\<lambda>sum key. add_double sum (PHASE_CONFIG key)) (Finite 0)
     (slice0 phaseKeys (indexOf phaseKeys p)) = accumulated_before p"
  by (cases p) (simp_all add: accumulated_before_def phaseKeys_def slice0_def del: PHASE_CONFIG.simps)

lemma Math_min_max_clamp01: "Math_min (Finite 1) (Math_max (Finite 0) x) = clamp01 x"
  by (cases x) (simp_all add: Math_min_def Math_max_def clamp01_def less_double_def)

lemma clamp01_idem: "clamp01 (clamp01 x) = clamp01 x"
  by (cases x) (simp_all add: clamp01_def less_double_def)

lemma clamp01_values:
  "clamp01 (Finite 0) = Finite 0"
  "clamp01 (Finite 1) = Finite 1"
  "clamp01 (Finite (- 1 / 2)) = Finite 0"
  "clamp01 (Finite (3 / 2)) = Finite 1"
  "clamp01 NegInfinity = Finite 0"
  "clamp01 PosInfinity = Finite 1"
  "clamp01 NaN = NaN"
  by (simp_all add: clamp01_def less_double_def)

lemma calculateProgress_formula:
  "calculateProgress p x =
     Math_round (mul_double (add_double (accumulated_before p) (mul_double (PHASE_CONFIG p) (clamp01 x)))
                   (Finite 100))"
  by (simp add: calculateProgress_def Let_def accumulated_eq_accumulated_before Math_min_max_clamp01)

lemma mul_double_one:
  "mul_double (Finite (3602879701896397 / 72057594037927936)) (Finite 1)
     = Finite (3602879701896397 / 72057594037927936)"
  "mul_double (Finite (5854679515581645 / 9007199254740992)) (Finite 1)
     = Finite (5854679515581645 / 9007199254740992)"
  "mul_double (Finite (3602879701896397 / 18014398509481984)) (Finite 1)
     = Finite (3602879701896397 / 18014398509481984)"
  by (simp_all add: double_eval)

lemma mul_double_hundred:
  "mul_double (Finite (3602879701896397 / 72057594037927936)) (Finite 100) = Finite 5"
  "mul_double (Finite (6305039478318695 / 9007199254740992)) (Finite 100) = Finite 70"
  "mul_double (Finite (4053239664633447 / 4503599627370496)) (Finite 100)
     = Finite (6333186975989761 / 70368744177664)"
  "mul_double (Finite (1069604911500493 / 1125899906842624)) (Finite 100)
     = Finite (6685030696878081 / 70368744177664)"
  "mul_double (Finite (4503599627370497 / 4503599627370496)) (Finite 100)
     = Finite (3518437208883201 / 35184372088832)"
  by (simp_all add: double_eval)

lemma Math_round_values:
  "Math_round (Finite 5) = Finite 5"
  "Math_round (Finite 70) = Finite 70"
  "Math_round (Finite (6333186975989761 / 70368744177664)) = Finite 90"
  "Math_round (Finite (6685030696878081 / 70368744177664)) = Finite 95"
  "Math_round (Finite (3518437208883201 / 35184372088832)) = Finite 100"
  by (simp_all add: Math_round_def)

lemma calculateProgress_completed:
  "calculateProgress initialization (Finite 1) = Finite 5"
  "calculateProgress data_gathering (Finite 1) = Finite 70"
  "calculateProgress info_retrieval (Finite 1) = Finite 90"
  "calculateProgress pdf_generation (Finite 1) = Finite 95"
  "calculateProgress success (Finite 1) = Finite 100"
  by (simp_all add: calculateProgress_formula accumulated_before_values PHASE_CONFIG_values
        clamp01_values mul_double_one add_double_weights mul_double_hundred Math_round_values
        del: PHASE_CONFIG.simps)

lemma weight_through_values:
  "weight_through initialization = 5 / 100"
  "weight_through data_gathering = 70 / 100"
  "weight_through info_retrieval = 90 / 100"
  "weight_through pdf_generation = 95 / 100"
  "weight_through success = 1"
  by (simp_all add: weight_through_def phaseKeys_def)

lemma sum_weights_double:
  "foldl add_double (Finite 0) (map PHASE_CONFIG phaseKeys) = Finite (1 + 1 / 2 ^ 52)"
  by (simp add: phaseKeys_def PHASE_CONFIG_values add_double_weights del: PHASE_CONFIG.simps)

text \<open>
  C1, as the code has it. For each of the five phases and every number \<open>phaseProgress\<close>,
  \<open>calculateProgress\<close> is \<open>Math.round\<close> of (the weights of the phases strictly before the
  phase, plus the weight of the phase times the progress clamped to [0,1]) times 100,
  every operation in double arithmetic and the weights added from left to right. A
  weight is the double of its decimal constant; the five decimal constants add up to 1,
  while their doubles add up to \<open>1 + 2^-52\<close>. A phase at progress 1 reports the rounded
  cumulative decimal weight through it (5, 70, 90, 95 and 100), and an input outside
  [0,1] gives what its clamped value gives.
\<close>

theorem calculateProgress_weighted_sum:
  "calculateProgress p x =
     Math_round (mul_double (add_double (accumulated_before p) (mul_double (PHASE_CONFIG p) (clamp01 x)))
                   (Finite 100))
   \<and> PHASE_CONFIG p = roundToDouble (decimal_weight p)
   \<and> sum_list (map decimal_weight phaseKeys) = 1
   \<and> foldl add_double (Finite 0) (map PHASE_CONFIG phaseKeys) = Finite (1 + 1 / 2 ^ 52)
   \<and> calculateProgress p (Finite 1) = Finite (real_of_int (round (weight_through p * 100)))
   \<and> map (\<lambda>q. calculateProgress q (Finite 1)) phaseKeys
       = [Finite 5, Finite 70, Finite 90, Finite 95, Finite 100]
   \<and> calculateProgress p x = calculateProgress p (clamp01 x)
   \<and> calculateProgress p (Finite (- 1 / 2)) = calculateProgress p (Finite 0)
   \<and> calculateProgress p (Finite (3 / 2)) = calculateProgress p (Finite 1)
   \<and> calculateProgress p NegInfinity = calculateProgress p (Finite 0)
   \<and> calculateProgress p PosInfinity = calculateProgress p (Finite 1)"
proof -
  have weight: "PHASE_CONFIG p = roundToDouble (decimal_weight p)"
    by (cases p) simp_all
  have decimal: "sum_list (map decimal_weight phaseKeys) = 1"
    by (simp add: phaseKeys_def)
  have full: "calculateProgress p (Finite 1) = Finite (real_of_int (round (weight_through p * 100)))"
    by (cases p) (simp_all add: calculateProgress_completed weight_through_values)
  have table: "map (\<lambda>q. calculateProgress q (Finite 1)) phaseKeys
                 = [Finite 5, Finite 70, Finite 90, Finite 95, Finite 100]"
    by (simp add: phaseKeys_def calculateProgress_completed)
  have clamped: "calculateProgress p y = calculateProgress p (clamp01 y)" for y
    by (simp only: calculateProgress_formula clamp01_idem)
  have below: "calculateProgress p (Finite (- 1 / 2)) = calculateProgress p (Finite 0)"
    by (simp only: calculateProgress_formula clamp01_values)
  have above: "calculateProgress p (Finite (3 / 2)) = calculateProgress p (Finite 1)"
    by (simp only: calculateProgress_formula clamp01_values)
  have neg: "calculateProgress p NegInfinity = calculateProgress p (Finite 0)"
    by (simp only: calculateProgress_formula clamp01_values)
  have pos: "calculateProgress p PosInfinity = calculateProgress p (Finite 1)"
    by (simp only: calculateProgress_formula clamp01_values)
  from calculateProgress_formula [of p x] weight decimal sum_weights_double full table
    clamped [of x] below above neg pos
  show ?thesis
    by blast
qed

text \<open>
  C1, over the real numbers. The double nearest to 0.3 lies just below 0.3. There the
  formula of the specification, evaluated exactly, gives 24.4999... and so 24; the code
  computes 0.65 times the progress as the double 0.195, the sum as 0.245 and the product
  with 100 as 24.5, and returns 25. The doubles of the weights do not add up to 1.
\<close>

theorem calculateProgress_exact_formula_counterexample:
  "roundToDouble (3 / 10) = Finite (5404319552844595 / 18014398509481984)
   \<and> calculateProgress data_gathering (Finite (5404319552844595 / 18014398509481984)) = Finite 25
   \<and> exact_progress data_gathering (5404319552844595 / 18014398509481984) = 24
   \<and> foldl add_double (Finite 0) (map PHASE_CONFIG phaseKeys) \<noteq> Finite 1"
proof -
  have literal: "roundToDouble (3 / 10) = Finite (5404319552844595 / 18014398509481984)"
    by (simp add: double_eval)
  have clamp: "clamp01 (Finite (5404319552844595 / 18014398509481984))
                 = Finite (5404319552844595 / 18014398509481984)"
    by (simp add: clamp01_def less_double_def)
  have contribution: "mul_double (Finite (5854679515581645 / 9007199254740992))
                        (Finite (5404319552844595 / 18014398509481984))
                      = Finite (3512807709348987 / 18014398509481984)"
    by (simp add: double_eval)
  have sum: "add_double (Finite (3602879701896397 / 72057594037927936))
               (Finite (3512807709348987 / 18014398509481984))
             = Finite (2206763817411543 / 9007199254740992)"
    by (simp add: double_eval)
  have percent: "mul_double (Finite (2206763817411543 / 9007199254740992)) (Finite 100)
                 = Finite (49 / 2)"
    by (simp add: double_eval)
  have rounded: "Math_round (Finite (49 / 2)) = Finite 25"
    by (simp add: Math_round_def)
  have code: "calculateProgress data_gathering (Finite (5404319552844595 / 18014398509481984))
                = Finite 25"
    by (simp only: calculateProgress_formula accumulated_before_values PHASE_CONFIG_values clamp
          contribution sum percent rounded)
  have exact: "exact_progress data_gathering (5404319552844595 / 18014398509481984) = 24"
    by (simp add: exact_progress_def weight_before_def phaseKeys_def round_def)
  have total: "foldl add_double (Finite 0) (map PHASE_CONFIG phaseKeys) \<noteq> Finite 1"
    by (simp add: sum_weights_double)
  from literal code exact total show ?thesis
    by blast
qed

text \<open>
  The progress callback of the data-gathering phase at step 7 of 26: the quotient, the
  product and the sum are rounded to doubles, the percentage comes out just below 22.5,
  and the service reports 22, where the exact formula at 7/26 gives 22.5 and so 23. A
  handler made for no steps at all divides by zero and reports the completed phase.
\<close>

lemma calculateProgress_step_7_of_26:
  "calculateProgress data_gathering (div_double (stepNumber 7) (Finite 26)) = Finite 22"
  "exact_progress data_gathering (7 / 26) = 23"
proof -
  have step: "stepNumber 7 = Finite 7"
    by (simp add: stepNumber_def)
  have quotient: "div_double (Finite 7) (Finite 26) = Finite (4850030367937457 / 18014398509481984)"
    by (simp add: double_eval)
  have clamp: "clamp01 (Finite (4850030367937457 / 18014398509481984))
                 = Finite (4850030367937457 / 18014398509481984)"
    by (simp add: clamp01_def less_double_def)
  have contribution: "mul_double (Finite (5854679515581645 / 9007199254740992))
                        (Finite (4850030367937457 / 18014398509481984))
                      = Finite (3152519739159347 / 18014398509481984)"
    by (simp add: double_eval)
  have sum: "add_double (Finite (3602879701896397 / 72057594037927936))
               (Finite (3152519739159347 / 18014398509481984))
             = Finite (2026619832316723 / 9007199254740992)"
    by (simp add: double_eval)
  have percent: "mul_double (Finite (2026619832316723 / 9007199254740992)) (Finite 100)
                 = Finite (6333186975989759 / 281474976710656)"
    by (simp add: double_eval)
  have rounded: "Math_round (Finite (6333186975989759 / 281474976710656)) = Finite 22"
    by (simp add: Math_round_def)
  show "calculateProgress data_gathering (div_double (stepNumber 7) (Finite 26)) = Finite 22"
    by (simp only: step quotient calculateProgress_formula accumulated_before_values
          PHASE_CONFIG_values clamp contribution sum percent rounded)
  show "exact_progress data_gathering (7 / 26) = 23"
    by (simp add: exact_progress_def weight_before_def phaseKeys_def round_def)
qed

lemma calculateProgress_no_steps:
  "calculateProgress info_retrieval (div_double (stepNumber 1) (Finite 0)) = Finite 90"
proof -
  have "div_double (stepNumber 1) (Finite 0) = PosInfinity"
    by (simp add: stepNumber_def div_double_def)
  then have "calculateProgress info_retrieval (div_double (stepNumber 1) (Finite 0))
               = calculateProgress info_retrieval (Finite 1)"
    by (simp only: calculateProgress_formula clamp01_values)
  then show ?thesis
    by (simp only: calculateProgress_completed)
qed

section \<open>Page count\<close>

lemma ceiling_half_pred: "\<lceil>(real_of_int n - 1) / 2\<rceil> = n div 2"
proof -
  have "(real_of_int n - 1) / 2 = real_of_int (n - 1) / real_of_int 2"
    by simp
  then have "\<lceil>(real_of_int n - 1) / 2\<rceil> = - ((- (n - 1)) div 2)"
    by (simp only: ceiling_divide_eq_div)
  also have "\<dots> = n div 2"
    by presburger
  finally show ?thesis .
qed

lemma calculateTotalPages_div:
  "calculateTotalPages n = 3 + (if n > 0 then 1 + n div 2 else 0)"
  unfolding calculateTotalPages_def Let_def ceiling_half_pred ..

text \<open>
  C2, as the code has it. For a panel count \<open>N \<ge> 0\<close>, \<open>calculateTotalPages N\<close> is 3 plus
  the content pages: none for \<open>N = 0\<close>, else one page for the first panel and
  \<open>ceil((N - 1) / 2)\<close> more, which is \<open>1 + N div 2\<close>. The counts for 0 to 5 panels are
  3, 4, 5, 5, 6 and 6.
\<close>

theorem calculateTotalPages_formula:
  "0 \<le> N \<Longrightarrow>
     calculateTotalPages N = 3 + (if N = 0 then 0 else 1 + \<lceil>(real_of_int N - 1) / 2\<rceil>)
   \<and> calculateTotalPages N = 3 + (if N = 0 then 0 else 1 + N div 2)
   \<and> map calculateTotalPages [0, 1, 2, 3, 4, 5] = [3, 4, 5, 5, 6, 6]"
proof -
  assume "0 \<le> N"
  have table: "map calculateTotalPages [0, 1, 2, 3, 4, 5] = [3, 4, 5, 5, 6, 6]"
    by (simp add: calculateTotalPages_div)
  have src: "calculateTotalPages N = 3 + (if N = 0 then 0 else 1 + \<lceil>(real_of_int N - 1) / 2\<rceil>)"
    using \<open>0 \<le> N\<close> by (simp add: calculateTotalPages_def Let_def)
  have int: "calculateTotalPages N = 3 + (if N = 0 then 0 else 1 + N div 2)"
    using src by (simp only: ceiling_half_pred)
  from src int table show ?thesis
    by blast
qed

theorem calculateTotalPages_formula_witness:
  "(0::int) \<le> 5 \<and> calculateTotalPages 5 = 3 + (if (5::int) = 0 then 0 else 1 + 5 div 2)
   \<and> calculateTotalPages 5 = 6"
  using calculateTotalPages_formula [of 5] by simp

text \<open>
  C2, the table. The specification lists 4 pages for two panels and 5 pages for four; the
  formula, and the code, give 5 and 6: the second panel already opens a second content
  page.
\<close>

theorem calculateTotalPages_two_panels_counterexample:
  "calculateTotalPages 2 = 5 \<and> calculateTotalPages 2 \<noteq> 4
   \<and> calculateTotalPages 4 = 6 \<and> calculateTotalPages 4 \<noteq> 5"
  by (simp add: calculateTotalPages_div)

section \<open>Footer images\<close>

declare createFooterLoop.simps [simp del]

lemma createFooterLoop_length:
  "createFooterLoop e a org t tp page acc = Inr imgs \<Longrightarrow>
   length imgs = length acc + nat (tp + 1 - page)"
proof (induction e a org t tp page acc rule: createFooterLoop.induct)
  case (1 e a org t tp page acc)
  show ?case
  proof (cases "page \<le> tp")
    case False
    with "1.prems" show ?thesis
      by (simp add: createFooterLoop.simps [of e a org t tp page acc])
  next
    case True
    show ?thesis
    proof (cases "capturePanelScreenshot e (FooterElement (createFooterElement e a org t tp page))")
      case None
      with True "1.prems" show ?thesis
        by (simp add: createFooterLoop.simps [of e a org t tp page acc])
    next
      case (Some img)
      with True "1.prems"
      have "createFooterLoop e a org t tp (page + 1) (acc @ [img]) = Inr imgs"
        by (simp add: createFooterLoop.simps [of e a org t tp page acc])
      from "1.IH" [OF True refl Some this] True show ?thesis
        by simp
    qed
  qed
qed

lemma createFooterLoop_success:
  "(\<forall>k \<in> {page..tp}. capturePanelScreenshot e (FooterElement (createFooterElement e a org t tp k)) \<noteq> None) \<Longrightarrow>
   createFooterLoop e a org t tp page acc =
     Inr (acc @ map (\<lambda>k. the (capturePanelScreenshot e (FooterElement (createFooterElement e a org t tp k)))) [page..tp])"
proof (induction e a org t tp page acc rule: createFooterLoop.induct)
  case (1 e a org t tp page acc)
  show ?case
  proof (cases "page \<le> tp")
    case False
    then show ?thesis
      by (simp add: createFooterLoop.simps [of e a org t tp page acc])
  next
    case True
    with "1.prems" obtain img where
      img: "capturePanelScreenshot e (FooterElement (createFooterElement e a org t tp page)) = Some img"
      by fastforce
    from "1.prems" have rest: "\<forall>k \<in> {page + 1..tp}.
        capturePanelScreenshot e (FooterElement (createFooterElement e a org t tp k)) \<noteq> None"
      by simp
    from "1.IH" [OF True refl img rest] True img show ?thesis
      by (simp add: createFooterLoop.simps [of e a org t tp page acc] upto_rec1 [of page tp])
  qed
qed

lemma createFooterLoop_failure:
  "k \<in> {page..tp} \<Longrightarrow>
   capturePanelScreenshot e (FooterElement (createFooterElement e a org t tp k)) = None \<Longrightarrow>
   createFooterLoop e a org t tp page acc = Inl CaptureFailure"
proof (induction e a org t tp page acc rule: createFooterLoop.induct)
  case (1 e a org t tp page acc)
  from "1.prems" have le: "page \<le> tp" by simp
  show ?case
  proof (cases "capturePanelScreenshot e (FooterElement (createFooterElement e a org t tp page))")
    case None
    with le show ?thesis
      by (simp add: createFooterLoop.simps [of e a org t tp page acc])
  next
    case (Some img)
    with "1.prems" have "k \<noteq> page" by auto
    with "1.prems" have "k \<in> {page + 1..tp}" by simp
    from "1.IH" [OF le refl Some this "1.prems"(2)] le Some show ?thesis
      by (simp add: createFooterLoop.simps [of e a org t tp page acc])
  qed
qed

text \<open>
  C3, as the code has it. When the captures of the footers of the pages 0 to \<open>totalPages\<close>
  succeed, \<open>createFooterImages\<close> returns their images in page order, one for every page
  index from 0 to \<open>totalPages\<close> inclusive: \<open>totalPages + 1\<close> entries (none for a negative
  \<open>totalPages\<close>). Whenever the call returns a list at all, the list has that length.
\<close>

theorem createFooterImages_one_per_page_index:
  assumes "\<forall>page \<in> {0..totalPages}.
             capturePanelScreenshot e
               (FooterElement (createFooterElement e allowToc organization title totalPages page)) \<noteq> None"
  shows "\<exists>footerImages.
           createFooterImages e allowToc organization title totalPages = Inr footerImages
         \<and> footerImages =
             map (\<lambda>page. the (capturePanelScreenshot e
                    (FooterElement (createFooterElement e allowToc organization title totalPages page))))
               [0..totalPages]
         \<and> length footerImages = nat (totalPages + 1)
         \<and> (\<forall>r imgs. createFooterImages r allowToc organization title totalPages = Inr imgs
               \<longrightarrow> length imgs = nat (totalPages + 1))"
proof -
  let ?imgs = "map (\<lambda>page. the (capturePanelScreenshot e
                    (FooterElement (createFooterElement e allowToc organization title totalPages page))))
               [0..totalPages]"
  have run: "createFooterImages e allowToc organization title totalPages = Inr ?imgs"
    using createFooterLoop_success [OF assms, of "[]"] by (simp add: createFooterImages_def)
  have len: "length ?imgs = nat (totalPages + 1)"
    by simp
  have any: "\<forall>r imgs. createFooterImages r allowToc organization title totalPages = Inr imgs
               \<longrightarrow> length imgs = nat (totalPages + 1)"
    by (auto simp add: createFooterImages_def dest: createFooterLoop_length)
  from run len any show ?thesis
    by blast
qed

theorem createFooterImages_one_per_page_index_witness:
  "\<exists>footerImages. createFooterImages exampleEnv True (js ''Org'') (js ''Sales'') 6 = Inr footerImages
      \<and> length footerImages = 7"
proof -
  have ok: "\<forall>page \<in> {0..6}. capturePanelScreenshot exampleEnv
        (FooterElement (createFooterElement exampleEnv True (js ''Org'') (js ''Sales'') 6 page)) \<noteq> None"
    by (simp add: exampleEnv_def)
  from createFooterImages_one_per_page_index [OF ok] ok show ?thesis
    by auto
qed

text \<open>
  C3, the count. The specification counts \<open>totalPages + 2\<close> footer entries. For a
  report of 6 pages the loop runs for the page indices 0 to 6 and returns 7 images, not 8.
\<close>

theorem createFooterImages_count_counterexample:
  "map_sum id length (createFooterImages exampleEnv True (js ''Org'') (js ''Sales'') 6) = Inr 7
   \<and> map_sum id length (createFooterImages exampleEnv True (js ''Org'') (js ''Sales'') 6) \<noteq> Inr (6 + 2)"
  by (simp add: createFooterImages_def createFooterLoop.simps exampleEnv_def)

section \<open>Layout restoration when no element is written twice\<close>

text \<open>
  \<open>preparePanelDimensions\<close> is the calls of \<open>layoutCalls\<close> applied in order to an empty
  \<open>Map\<close>.
\<close>

lemma forEachPanel_applyCalls:
  "forEachPanel ps g state = applyCalls (map (\<lambda>p. (p, g)) ps) state"
  by (simp add: forEachPanel_def applyCalls_def foldl_map)

lemma applyCalls_append: "applyCalls (xs @ ys) state = applyCalls ys (applyCalls xs state)"
  by (simp add: applyCalls_def)

lemma preparePanelDimensions_calls:
  "preparePanelDimensions panels w = applyCalls (layoutCalls panels) ([], w)"
  by (simp add: preparePanelDimensions_def layoutCalls_def Let_def forEachPanel_applyCalls
        applyCalls_append)

lemma update_fresh: "k \<notin> fst ` set al \<Longrightarrow> AList.update k v al = al @ [(k, v)]"
  by (induction al) auto

lemma assign_snapshot_all:
  "assignStyle (assignStyle st g)
     \<lparr>origTop = Some (styleTop st), origLeft = Some (styleLeft st),
      origWidth = Some (styleWidth st), origHeight = Some (styleHeight st),
      origPosition = Some (stylePosition st), origVisibility = Some (styleVisibility st)\<rparr> = st"
  by (simp add: assignStyle_def)

lemma assign_snapshot_size:
  "assignStyle (assignStyle st fullSize)
     \<lparr>origTop = None, origLeft = None, origWidth = Some (styleWidth st),
      origHeight = Some (styleHeight st), origPosition = None, origVisibility = None\<rparr> = st"
  by (simp add: assignStyle_def fullSize_def)

lemma storeAndApplyStyles_untouched:
  "touched p = [] \<Longrightarrow> storeAndApplyStyles p g fullSize state = state"
  by (cases state) (auto simp add: storeAndApplyStyles_def touched_def split: option.splits)

text \<open>
  A call on two elements not yet in the \<open>Map\<close> keeps the page restorable: the two new
  snapshots hold what the call overwrites.
\<close>

lemma storeAndApplyStyles_restorable:
  assumes inv: "restorable w0 (orig, w)"
    and t: "touched p = [r, e]" and re: "r \<noteq> e"
    and fresh: "r \<notin> fst ` set orig" "e \<notin> fst ` set orig"
  shows "restorable w0 (storeAndApplyStyles p g fullSize (orig, w))"
    and "fst ` set (fst (storeAndApplyStyles p g fullSize (orig, w))) = fst ` set orig \<union> {r, e}"
proof -
  from t have pr: "reactGridItem p = Some r" and pe: "embPanel p = Some e"
    by (auto simp add: touched_def split: option.splits)
  let ?sr = "\<lparr>origTop = Some (styleTop (styles w r)), origLeft = Some (styleLeft (styles w r)),
      origWidth = Some (styleWidth (styles w r)), origHeight = Some (styleHeight (styles w r)),
      origPosition = Some (stylePosition (styles w r)),
      origVisibility = Some (styleVisibility (styles w r))\<rparr>"
  let ?se = "\<lparr>origTop = None, origLeft = None, origWidth = Some (styleWidth (styles w e)),
      origHeight = Some (styleHeight (styles w e)), origPosition = None, origVisibility = None\<rparr>"
  let ?orig' = "orig @ [(r, ?sr), (e, ?se)]"
  let ?w' = "setStyle e fullSize (setStyle r g
               (w\<lparr>events := events w @ [StyleSnapshot r, StyleSnapshot e]\<rparr>))"
  from fresh re have e_fresh: "e \<notin> fst ` set (orig @ [(r, ?sr)])"
    by auto
  have upd: "AList.update e ?se (AList.update r ?sr orig) = ?orig'"
    by (simp add: update_fresh [OF fresh(1)] update_fresh [OF e_fresh])
  have run: "storeAndApplyStyles p g fullSize (orig, w) = (?orig', ?w')"
    by (simp add: storeAndApplyStyles_def pr pe upd Let_def)
  have st: "styles ?w' = (styles w)(r := assignStyle (styles w r) g,
                                    e := assignStyle (styles w e) fullSize)"
    using re by (simp add: setStyle_def)
  from inv have d: "distinct (map fst orig)"
    and out: "\<And>x. x \<notin> fst ` set orig \<Longrightarrow> styles w x = styles w0 x"
    and undo: "\<And>x snap. (x, snap) \<in> set orig \<Longrightarrow> assignStyle (styles w x) snap = styles w0 x"
    by (auto simp add: restorable_def)
  have d': "distinct (map fst ?orig')"
    using d fresh re by auto
  have out': "styles ?w' x = styles w0 x" if "x \<notin> fst ` set ?orig'" for x
    using that out [of x] by (auto simp add: st)
  have undo': "assignStyle (styles ?w' x) snap = styles w0 x" if "(x, snap) \<in> set ?orig'" for x snap
  proof -
    from that consider "(x, snap) \<in> set orig" | "x = r" "snap = ?sr" | "x = e" "snap = ?se"
      by auto
    then show ?thesis
    proof cases
      case 1
      with fresh have "x \<noteq> r" "x \<noteq> e"
        by (auto simp add: image_iff)
      with undo [OF 1] show ?thesis
        by (simp add: st)
    next
      case 2
      with re out [OF fresh(1)] show ?thesis
        by (simp add: st assign_snapshot_all)
    next
      case 3
      with re out [OF fresh(2)] show ?thesis
        by (simp add: st assign_snapshot_size)
    qed
  qed
  from d' out' undo' show "restorable w0 (storeAndApplyStyles p g fullSize (orig, w))"
    unfolding run restorable_def by (simp only: prod.case) blast
  show "fst ` set (fst (storeAndApplyStyles p g fullSize (orig, w))) = fst ` set orig \<union> {r, e}"
    unfolding run by auto
qed

lemma touched_cases:
  "touched p = [] \<or> (\<exists>r e. touched p = [r, e])"
  by (auto simp add: touched_def split: option.splits)

lemma applyCalls_restorable:
  assumes "restorable w0 state"
    and "distinct (concat (map (\<lambda>c. touched (fst c)) calls))"
    and "set (concat (map (\<lambda>c. touched (fst c)) calls)) \<inter> fst ` set (fst state) = {}"
  shows "restorable w0 (applyCalls calls state)"
  using assms
proof (induction calls arbitrary: state)
  case Nil
  then show ?case by (simp add: applyCalls_def)
next
  case (Cons c calls)
  obtain p g where c: "c = (p, g)"
    by (cases c)
  obtain orig w where state: "state = (orig, w)"
    by (cases state)
  let ?next = "storeAndApplyStyles p g fullSize state"
  have unfold: "applyCalls (c # calls) state = applyCalls calls ?next"
    by (simp add: applyCalls_def c)
  from Cons.prems(2) have d_rest: "distinct (concat (map (\<lambda>c. touched (fst c)) calls))"
    by simp
  from touched_cases [of p] show ?case
  proof
    assume none: "touched p = []"
    then have same: "?next = state"
      by (rule storeAndApplyStyles_untouched)
    from Cons.prems(3) have "set (concat (map (\<lambda>c. touched (fst c)) calls)) \<inter> fst ` set (fst state) = {}"
      by auto
    from Cons.IH [OF Cons.prems(1) d_rest this] show ?thesis
      by (simp add: unfold same)
  next
    assume "\<exists>r e. touched p = [r, e]"
    then obtain r e where t: "touched p = [r, e]"
      by blast
    from Cons.prems(2) c t have re: "r \<noteq> e"
      by simp
    from Cons.prems(3) c t state have fresh: "r \<notin> fst ` set orig" "e \<notin> fst ` set orig"
      by auto
    from Cons.prems(1) state have inv: "restorable w0 (orig, w)"
      by simp
    note step = storeAndApplyStyles_restorable [OF inv t re fresh, of g]
    from Cons.prems(2) c t
    have "set (concat (map (\<lambda>c. touched (fst c)) calls)) \<inter> {r, e} = {}"
      by auto
    moreover from Cons.prems(3) state
    have "set (concat (map (\<lambda>c. touched (fst c)) calls)) \<inter> fst ` set orig = {}"
      by auto
    ultimately have
      "set (concat (map (\<lambda>c. touched (fst c)) calls)) \<inter> fst ` set (fst ?next) = {}"
      unfolding state step(2) by blast
    from Cons.IH [OF _ d_rest this] step(1) state
    have "restorable w0 (applyCalls calls ?next)"
      by simp
    then show ?thesis
      by (simp only: unfold)
  qed
qed

lemma foldl_setStyle_events:
  "events (foldl (\<lambda>w (element, styleBlock). setStyle element styleBlock w) w orig) = events w"
  by (induction orig arbitrary: w) (auto simp add: setStyle_def)

lemma foldl_setStyle_styles:
  "distinct (map fst orig) \<Longrightarrow>
   styles (foldl (\<lambda>w (element, styleBlock). setStyle element styleBlock w) w orig) x =
     (case map_of orig x of Some snap \<Rightarrow> assignStyle (styles w x) snap | None \<Rightarrow> styles w x)"
proof (induction orig arbitrary: w)
  case Nil
  then show ?case by simp
next
  case (Cons a orig)
  obtain k v where a: "a = (k, v)"
    by (cases a)
  from Cons.prems a have d: "distinct (map fst orig)" and k: "k \<notin> fst ` set orig"
    by auto
  from k have none: "map_of orig k = None"
    by (simp add: map_of_eq_None_iff)
  show ?case
    using Cons.IH [OF d, of "setStyle k v w"] none
    by (auto simp add: a setStyle_def split: option.splits)
qed

lemma restoreLayout_restorable:
  assumes "restorable w0 (orig, w)"
  shows "styles (restoreLayout orig w) = styles w0"
proof
  fix x
  from assms have d: "distinct (map fst orig)"
    and out: "\<And>y. y \<notin> fst ` set orig \<Longrightarrow> styles w y = styles w0 y"
    and undo: "\<And>y snap. (y, snap) \<in> set orig \<Longrightarrow> assignStyle (styles w y) snap = styles w0 y"
    by (auto simp add: restorable_def)
  have "styles (restoreLayout orig w) x =
          (case map_of orig x of Some snap \<Rightarrow> assignStyle (styles w x) snap | None \<Rightarrow> styles w x)"
    by (simp add: restoreLayout_def foldl_setStyle_styles [OF d] cong: option.case_cong)
  also have "\<dots> = styles w0 x"
  proof (cases "map_of orig x")
    case None
    then have "x \<notin> fst ` set orig"
      by (simp add: map_of_eq_None_iff)
    from out [OF this] None show ?thesis by simp
  next
    case (Some snap)
    then have "(x, snap) \<in> set orig"
      by (rule map_of_SomeD)
    from undo [OF this] Some show ?thesis by simp
  qed
  finally show "styles (restoreLayout orig w) x = styles w0 x" .
qed

lemma restorable_start: "styles w = styles w0 \<Longrightarrow> restorable w0 ([], w)"
  by (simp add: restorable_def)

text \<open>
  When the style blocks write every grid cell and every panel body at most once (no
  panel in two blocks, no element shared between panels or between the two roles), the
  page has its styles back after \<open>getVisualizationData\<close>, whether the captures succeed or
  fail.
\<close>

lemma getVisualizationData_restores:
  assumes "distinct (concat (map (\<lambda>c. touched (fst c)) (layoutCalls (getValidPanels doc))))"
  shows "styles (snd (getVisualizationData e doc allowToc organization w)) = styles w"
proof (cases "length (getValidPanels doc) = 0")
  case True
  then show ?thesis
    by (simp add: getVisualizationData_def)
next
  case False
  let ?w1 = "w\<lparr>events := events w @ [ToastSuccess]\<rparr>"
  obtain orig w2 where prep: "preparePanelDimensions (getValidPanels doc) ?w1 = (orig, w2)"
    by (cases "preparePanelDimensions (getValidPanels doc) ?w1")
  have "restorable w (applyCalls (layoutCalls (getValidPanels doc)) ([], ?w1))"
    by (rule applyCalls_restorable [OF restorable_start assms]) simp_all
  with prep have "restorable w (orig, w2)"
    by (simp add: preparePanelDimensions_calls)
  from restoreLayout_restorable [OF this] False prep show ?thesis
    by (simp add: getVisualizationData_def Let_def)
qed

lemma storeAndApplyStyles_restores_kept:
  "filter (\<lambda>ev. ev = LayoutRestored) (events (snd (storeAndApplyStyles p g fullSize state)))
     = filter (\<lambda>ev. ev = LayoutRestored) (events (snd state))"
  by (cases state)
     (auto simp add: storeAndApplyStyles_def setStyle_def Let_def split: option.splits)

lemma applyCalls_restores_kept:
  "filter (\<lambda>ev. ev = LayoutRestored) (events (snd (applyCalls calls state)))
     = filter (\<lambda>ev. ev = LayoutRestored) (events (snd state))"
proof (induction calls arbitrary: state)
  case Nil
  then show ?case by (simp add: applyCalls_def)
next
  case (Cons c calls)
  obtain p g where c: "c = (p, g)"
    by (cases c)
  have "applyCalls (c # calls) state = applyCalls calls (storeAndApplyStyles p g fullSize state)"
    by (simp add: applyCalls_def c)
  with Cons.IH [of "storeAndApplyStyles p g fullSize state"] show ?case
    by (simp add: storeAndApplyStyles_restores_kept)
qed

text \<open>
  With valid panels, one run calls the restore closure once, whatever the captures do.
\<close>

lemma getVisualizationData_restores_once:
  assumes "getValidPanels doc \<noteq> []"
  shows "filter (\<lambda>ev. ev = LayoutRestored)
           (events (snd (getVisualizationData e doc allowToc organization w)))
         = filter (\<lambda>ev. ev = LayoutRestored) (events w) @ [LayoutRestored]"
proof -
  let ?w1 = "w\<lparr>events := events w @ [ToastSuccess]\<rparr>"
  obtain orig w2 where prep: "preparePanelDimensions (getValidPanels doc) ?w1 = (orig, w2)"
    by (cases "preparePanelDimensions (getValidPanels doc) ?w1")
  from applyCalls_restores_kept [of "layoutCalls (getValidPanels doc)" "([], ?w1)"] prep
  have "filter (\<lambda>ev. ev = LayoutRestored) (events w2)
          = filter (\<lambda>ev. ev = LayoutRestored) (events w)"
    by (simp add: preparePanelDimensions_calls)
  with assms prep show ?thesis
    by (simp add: getVisualizationData_def Let_def restoreLayout_def foldl_setStyle_events)
qed

section \<open>Layout restoration at a panel matched twice\<close>

lemma getValidPanels_splitVisDashboard: "getValidPanels splitVisDashboard = [splitVisPanel]"
  by (simp add: getValidPanels_def splitVisDashboard_def isValidPanel_def isExcludedPanelType_def
        isEmptyPanel_def hasNoDataMessage_def querySelector_def splitVisPanel_def)

lemma preparePanelDimensions_splitVisPanel:
  "preparePanelDimensions [splitVisPanel] (dashboardWorld\<lparr>events := [ToastSuccess]\<rparr>) =
     ([(0, \<lparr>origTop = Some (js ''320px''), origLeft = Some (js ''637px''), origWidth = Some (js ''637px''),
            origHeight = Some (js ''200px''), origPosition = Some (js ''absolute''),
            origVisibility = Some (js ''hidden'')\<rparr>),
       (1, \<lparr>origTop = None, origLeft = None, origWidth = Some (js ''100%''),
            origHeight = Some (js ''100%''), origPosition = None, origVisibility = None\<rparr>)],
      \<lparr>styles = (\<lambda>element. gridStyle)
         (0 := \<lparr>styleTop = js ''1600px'', styleLeft = js ''955px'', styleWidth = js ''955px'',
                styleHeight = js ''540px'', stylePosition = js ''absolute'', styleVisibility = js ''hidden''\<rparr>,
          1 := \<lparr>styleTop = js ''10px'', styleLeft = js ''10px'', styleWidth = js ''100%'',
                styleHeight = js ''100%'', stylePosition = js ''absolute'', styleVisibility = []\<rparr>),
       events = [ToastSuccess, StyleSnapshot 0, StyleSnapshot 1, StyleSnapshot 0, StyleSnapshot 1]\<rparr>)"
  by (simp add: preparePanelDimensions_def forEachPanel_def storeAndApplyStyles_def
        querySelector_def splitVisPanel_def dashboardWorld_def setStyle_def assignStyle_def
        rootGeometry_def fullSize_def gridStyle_def fun_upd_twist)

text \<open>
  C4, at a panel that two style blocks match. The second block stores, as the original
  style of the grid cell, the geometry the first block has just written. After
  \<open>getVisualizationData\<close>, whatever the captures return, the grid cell is left hidden at
  that geometry, and the panel body at full size, instead of the styles they had before
  the run; the restore closure has run once.
\<close>

theorem getVisualizationData_double_probe_not_restored:
  "styles (snd (getVisualizationData e splitVisDashboard True (js ''Org'') dashboardWorld)) 0
     = \<lparr>styleTop = js ''320px'', styleLeft = js ''637px'', styleWidth = js ''637px'',
        styleHeight = js ''200px'', stylePosition = js ''absolute'', styleVisibility = js ''hidden''\<rparr>
   \<and> styles dashboardWorld 0
     = \<lparr>styleTop = js ''10px'', styleLeft = js ''10px'', styleWidth = js ''600px'',
        styleHeight = js ''300px'', stylePosition = js ''absolute'', styleVisibility = []\<rparr>
   \<and> styleWidth (styles (snd (getVisualizationData e splitVisDashboard True (js ''Org'')
                               dashboardWorld)) 1) = js ''100%''
   \<and> events (snd (getVisualizationData e splitVisDashboard True (js ''Org'') dashboardWorld))
     = [ToastSuccess, StyleSnapshot 0, StyleSnapshot 1, StyleSnapshot 0, StyleSnapshot 1,
        LayoutRestored]"
proof -
  have start: "dashboardWorld\<lparr>events := events dashboardWorld @ [ToastSuccess]\<rparr>
                 = dashboardWorld\<lparr>events := [ToastSuccess]\<rparr>"
    by (simp add: dashboardWorld_def)
  have run: "snd (getVisualizationData e splitVisDashboard True (js ''Org'') dashboardWorld)
      = restoreLayout (fst (preparePanelDimensions [splitVisPanel]
                              (dashboardWorld\<lparr>events := [ToastSuccess]\<rparr>)))
          (snd (preparePanelDimensions [splitVisPanel] (dashboardWorld\<lparr>events := [ToastSuccess]\<rparr>)))"
    by (simp add: getVisualizationData_def getValidPanels_splitVisDashboard start Let_def
          split: prod.splits)
  show ?thesis
    unfolding run preparePanelDimensions_splitVisPanel
    by (simp add: restoreLayout_def setStyle_def assignStyle_def dashboardWorld_def gridStyle_def)
qed

section \<open>Page breaks\<close>

lemma panelEntries_no_break: "filter isPageBreak (panelEntries e p s) = []"
  by (auto simp add: panelEntries_def isPageBreak_def createDataTitleVisualization_def
        createMainVisualization_def Let_def split: option.splits)

lemma isPageBreak_marker: "isPageBreak (pageBreakMarker i)"
  by (simp add: isPageBreak_def pageBreakMarker_def)

lemma addPageBreaks_append:
  "addPageBreaks vs i n = vs @ (if even (i + 1) \<and> i + 1 \<noteq> n then [pageBreakMarker i] else [])"
  by (auto simp add: addPageBreaks_def)

lemma processPanel_Inr:
  "capturePanelScreenshot e (PanelElement p) = Some s \<Longrightarrow>
   processPanel e n p i = Inr (addPageBreaks (panelEntries e p s) i n)"
  by (simp add: processPanel_def panelEntries_def Let_def)

lemma promiseAll_map_Inr: "promiseAll (map Inr xs) = Inr xs"
  by (induction xs) simp_all

lemma promiseAll_Inr_D: "promiseAll rs = Inr xs \<Longrightarrow> rs = map Inr xs"
proof (induction rs arbitrary: xs)
  case Nil
  then show ?case by simp
next
  case (Cons r rs)
  show ?case
  proof (cases r)
    case (Inl err)
    with Cons.prems show ?thesis by simp
  next
    case (Inr x)
    with Cons.prems obtain ys where ys: "promiseAll rs = Inr ys" and xs: "xs = x # ys"
      by (auto split: sum.splits)
    from Cons.IH [OF ys] Inr xs show ?thesis by simp
  qed
qed

lemma processVisualizationPanels_length:
  assumes "processVisualizationPanels e panels = Inr vss"
  shows "length vss = length panels"
proof -
  from assms have "map (\<lambda>(panelElement, index). processPanel e (length panels) panelElement index)
                     (zip panels [0..<length panels]) = map Inr vss"
    by (simp add: processVisualizationPanels_def promiseAll_Inr_D)
  then have "length (zip panels [0..<length panels]) = length vss"
    by (metis length_map)
  then show ?thesis by simp
qed

lemma processVisualizationPanels_nth:
  assumes "processVisualizationPanels e panels = Inr vss" and "i < length panels"
  shows "\<exists>s. vss ! i = addPageBreaks (panelEntries e (panels ! i) s) i (length panels)"
proof -
  from assms(1) have eq: "map (\<lambda>(panelElement, index). processPanel e (length panels) panelElement index)
                   (zip panels [0..<length panels]) = map Inr vss"
    by (simp add: processVisualizationPanels_def promiseAll_Inr_D)
  have len: "length vss = length panels"
    using assms(1) by (rule processVisualizationPanels_length)
  from eq have "(map (\<lambda>(panelElement, index). processPanel e (length panels) panelElement index)
                   (zip panels [0..<length panels])) ! i = (map Inr vss) ! i"
    by simp
  with assms(2) len have pi: "processPanel e (length panels) (panels ! i) i = Inr (vss ! i)"
    by simp
  show ?thesis
  proof (cases "capturePanelScreenshot e (PanelElement (panels ! i))")
    case None
    with pi show ?thesis by (simp add: processPanel_def Let_def)
  next
    case (Some s)
    from pi processPanel_Inr [OF Some, of "length panels" i]
    have "vss ! i = addPageBreaks (panelEntries e (panels ! i) s) i (length panels)"
      by simp
    then show ?thesis by blast
  qed
qed

lemma processVisualizationPanels_example:
  "processVisualizationPanels exampleEnv [examplePanel (js ''a''), examplePanel (js ''b''), examplePanel (js ''c'')]
     = Inr [panelEntries exampleEnv (examplePanel (js ''a'')) (js ''image''),
            panelEntries exampleEnv (examplePanel (js ''b'')) (js ''image'') @ [pageBreakMarker 1],
            panelEntries exampleEnv (examplePanel (js ''c'')) (js ''image'')]"
proof -
  have cap: "capturePanelScreenshot exampleEnv (PanelElement q) = Some (js ''image'')" for q
    by (simp add: exampleEnv_def)
  have upt3: "[0..<3] = [0, 1, 2::nat]"
    by (simp add: upt_rec)
  show ?thesis
    by (simp add: processVisualizationPanels_def upt3 processPanel_Inr [OF cap] addPageBreaks_append)
qed

text \<open>
  C5. For a panel at 0-based position \<open>index\<close> among \<open>totalPanels\<close> panels, \<open>addPageBreaks\<close>
  appends one PageBreak marker to the panel's entries when \<open>index + 1\<close> is even and the
  panel is not the last one, and leaves the entries as they are otherwise; for the last
  panel it appends nothing, whatever the parity. In the result of
  \<open>processVisualizationPanels\<close> the entries of panel \<open>index\<close> therefore hold exactly one
  marker, at their end, in the first case, and none in the other, and the last panel's
  entries hold none.
\<close>

theorem addPageBreaks_every_second_panel:
  assumes "processVisualizationPanels e panels = Inr vss" and "index < length panels"
  shows "addPageBreaks vs i totalPanels =
           (if even (i + 1) \<and> int i \<noteq> int totalPanels - 1 then vs @ [pageBreakMarker i] else vs)
       \<and> vizType (pageBreakMarker i) = PageBreak
       \<and> addPageBreaks vs i (i + 1) = vs
       \<and> (\<exists>entries. filter isPageBreak entries = []
             \<and> vss ! index = entries @ (if even (index + 1) \<and> index \<noteq> length panels - 1
                                       then [pageBreakMarker index] else []))
       \<and> filter isPageBreak (vss ! index) =
           (if even (index + 1) \<and> index \<noteq> length panels - 1 then [pageBreakMarker index] else [])
       \<and> filter isPageBreak (vss ! (length panels - 1)) = []"
proof -
  have parity: "((int i + 1) mod 2 = 0) = even (i + 1)"
    by presburger
  have one: "addPageBreaks vs i totalPanels =
           (if even (i + 1) \<and> int i \<noteq> int totalPanels - 1 then vs @ [pageBreakMarker i] else vs)"
    by (simp only: addPageBreaks_def parity)
  have two: "vizType (pageBreakMarker i) = PageBreak"
    by (simp add: pageBreakMarker_def)
  have three: "addPageBreaks vs i (i + 1) = vs"
    by (simp add: addPageBreaks_def)
  have shape: "\<exists>entries. filter isPageBreak entries = []
             \<and> vss ! k = entries @ (if even (k + 1) \<and> k \<noteq> length panels - 1
                                   then [pageBreakMarker k] else [])"
    if "k < length panels" for k
  proof -
    from processVisualizationPanels_nth [OF assms(1) that] obtain s
      where "vss ! k = addPageBreaks (panelEntries e (panels ! k) s) k (length panels)"
      by blast
    moreover from that have "k + 1 \<noteq> length panels \<longleftrightarrow> k \<noteq> length panels - 1"
      by arith
    ultimately have "vss ! k = panelEntries e (panels ! k) s
          @ (if even (k + 1) \<and> k \<noteq> length panels - 1 then [pageBreakMarker k] else [])"
      by (simp add: addPageBreaks_append)
    with panelEntries_no_break [of e "panels ! k" s] show ?thesis
      by blast
  qed
  have count: "filter isPageBreak (vss ! k) =
           (if even (k + 1) \<and> k \<noteq> length panels - 1 then [pageBreakMarker k] else [])"
    if "k < length panels" for k
    using shape [OF that] by (auto simp add: isPageBreak_marker)
  from assms(2) have last: "length panels - 1 < length panels"
    by arith
  have final: "filter isPageBreak (vss ! (length panels - 1)) = []"
    using count [OF last] by simp
  from one two three shape [OF assms(2)] count [OF assms(2)] final show ?thesis
    by blast
qed

theorem addPageBreaks_every_second_panel_witness:
  "\<exists>vss. processVisualizationPanels exampleEnv
            [examplePanel (js ''a''), examplePanel (js ''b''), examplePanel (js ''c'')] = Inr vss
      \<and> (1::nat) < length [examplePanel (js ''a''), examplePanel (js ''b''), examplePanel (js ''c'')]
      \<and> filter isPageBreak (vss ! 1) = [pageBreakMarker 1]
      \<and> filter isPageBreak (vss ! 2) = []"
proof -
  let ?panels = "[examplePanel (js ''a''), examplePanel (js ''b''), examplePanel (js ''c'')]"
  let ?vss = "[panelEntries exampleEnv (examplePanel (js ''a'')) (js ''image''),
               panelEntries exampleEnv (examplePanel (js ''b'')) (js ''image'') @ [pageBreakMarker 1],
               panelEntries exampleEnv (examplePanel (js ''c'')) (js ''image'')]"
  have len: "(1::nat) < length ?panels"
    by simp
  from addPageBreaks_every_second_panel [OF processVisualizationPanels_example len]
  have "filter isPageBreak (?vss ! 1) =
          (if even ((1::nat) + 1) \<and> (1::nat) \<noteq> length ?panels - 1 then [pageBreakMarker 1] else [])"
    and "filter isPageBreak (?vss ! (length ?panels - 1)) = []"
    by blast+
  then have "filter isPageBreak (?vss ! 1) = [pageBreakMarker 1]"
    and "filter isPageBreak (?vss ! 2) = []"
    by simp_all
  with processVisualizationPanels_example len show ?thesis
    by blast
qed

section \<open>Phase duration history\<close>

lemma updateModalProgress_history:
  "phaseHistory (snd (updateModalProgress s)) = phaseHistory s"
  by (simp add: updateModalProgress_def Let_def split: option.splits)

lemma updateProgress_history:
  "phaseHistory (snd (updateProgress k x s)) = phaseHistory s"
  by (simp add: updateProgress_def updateModalProgress_history)

lemma updatePhaseHistory_same:
  "getPhaseHistory (updatePhaseHistory k d s) k =
     (if length (getPhaseHistory s k) \<ge> 10 then tl (getPhaseHistory s k) else getPhaseHistory s k) @ [d]"
  by (simp add: updatePhaseHistory_def getPhaseHistory_def Let_def)

lemma updatePhaseHistory_other:
  "q \<noteq> k \<Longrightarrow> phaseHistory (updatePhaseHistory k d s) q = phaseHistory s q"
  by (simp add: updatePhaseHistory_def Let_def)

lemma getPhaseHistory_cong:
  "phaseHistory s2 = phaseHistory s \<Longrightarrow> getPhaseHistory s2 k = getPhaseHistory s k"
  by (simp add: getPhaseHistory_def)

text \<open>
  Whatever path \<open>executePhase\<close> takes, its final state is one \<open>updatePhaseHistory\<close> applied
  to a state that still has the histories of the start.
\<close>

lemma executePhase_records:
  assumes "keepsHistory operation"
  shows "\<exists>s2. phaseHistory s2 = phaseHistory s
            \<and> snd (executePhase k operation now0 now1 s) = updatePhaseHistory k (now1 - now0) s2"
proof -
  let ?s0 = "s\<lparr>phaseTracker := Some \<lparr>phase = k, startTime = now0,
                    historicalDurations = getPhaseHistoryRef s k\<rparr>\<rparr>"
  obtain r1 s1 where u1: "updateProgress k (Finite 0) ?s0 = (r1, s1)"
    by (cases "updateProgress k (Finite 0) ?s0")
  have h1: "phaseHistory s1 = phaseHistory s"
    using updateProgress_history [of k "Finite 0" ?s0] u1 by simp
  show ?thesis
  proof (cases r1)
    case (Inl err)
    with u1 h1 show ?thesis
      by (auto simp add: executePhase_def Let_def)
  next
    case (Inr u)
    obtain r2 s2 where o: "operation s1 = (r2, s2)"
      by (cases "operation s1")
    from assms o have h2: "phaseHistory s2 = phaseHistory s1"
      by (metis keepsHistory_def snd_conv)
    show ?thesis
    proof (cases r2)
      case (Inl err)
      with Inr u1 o h1 h2 show ?thesis
        by (auto simp add: executePhase_def Let_def)
    next
      case res: (Inr result)
      obtain r3 s3 where u3: "updateProgress k (Finite 1) s2 = (r3, s3)"
        by (cases "updateProgress k (Finite 1) s2")
      have h3: "phaseHistory s3 = phaseHistory s2"
        using updateProgress_history [of k "Finite 1" s2] u3 by simp
      from Inr res u1 o u3 h1 h2 h3 show ?thesis
        by (cases r3) (auto simp add: executePhase_def Let_def)
    qed
  qed
qed

lemma executePhase_history_same:
  assumes "keepsHistory operation"
  shows "getPhaseHistory (snd (executePhase k operation now0 now1 s)) k =
     (if length (getPhaseHistory s k) \<ge> 10 then tl (getPhaseHistory s k) else getPhaseHistory s k)
       @ [now1 - now0]"
proof -
  from executePhase_records [OF assms, of s k now0 now1] obtain s2 where
    "phaseHistory s2 = phaseHistory s"
    "snd (executePhase k operation now0 now1 s) = updatePhaseHistory k (now1 - now0) s2"
    by blast
  then show ?thesis
    by (simp add: updatePhaseHistory_same getPhaseHistory_cong [of s2 s])
qed

lemma executePhase_history_other:
  assumes "keepsHistory operation" and "q \<noteq> k"
  shows "getPhaseHistory (snd (executePhase k operation now0 now1 s)) q = getPhaseHistory s q"
proof -
  from executePhase_records [OF assms(1), of s k now0 now1] obtain s2 where
    "phaseHistory s2 = phaseHistory s"
    "snd (executePhase k operation now0 now1 s) = updatePhaseHistory k (now1 - now0) s2"
    by blast
  with assms(2) show ?thesis
    by (simp add: getPhaseHistory_def updatePhaseHistory_other)
qed

lemma phaseKeys_all: "set phaseKeys = UNIV"
proof -
  have "k \<in> set phaseKeys" for k
    by (cases k) (simp_all add: phaseKeys_def)
  then show ?thesis by blast
qed

lemma historyBounded_iff: "historyBounded s \<longleftrightarrow> (\<forall>k. length (getPhaseHistory s k) \<le> 10)"
  by (simp add: historyBounded_def list_all_iff phaseKeys_all)

lemma executePhase_bounded:
  assumes "keepsHistory operation" and "historyBounded s"
  shows "historyBounded (snd (executePhase k operation now0 now1 s))"
  unfolding historyBounded_iff
proof
  fix q
  from assms(2) have b: "length (getPhaseHistory s q) \<le> 10" for q
    by (simp add: historyBounded_iff)
  show "length (getPhaseHistory (snd (executePhase k operation now0 now1 s)) q) \<le> 10"
  proof (cases "q = k")
    case True
    with b [of k] show ?thesis
      by (simp add: executePhase_history_same [OF assms(1)])
  next
    case False
    with b [of q] show ?thesis
      by (simp add: executePhase_history_other [OF assms(1)])
  qed
qed

lemma executePhases_bounded:
  "list_all (\<lambda>c. keepsHistory (fst (snd c))) calls \<Longrightarrow> historyBounded s \<Longrightarrow>
   historyBounded (executePhases calls s)"
proof (induction calls arbitrary: s)
  case Nil
  then show ?case by simp
next
  case (Cons c calls)
  obtain k operation now0 now1 where c: "c = (k, operation, now0, now1)"
    by (cases c)
  with Cons.prems have "keepsHistory operation"
    and rest: "list_all (\<lambda>c. keepsHistory (fst (snd c))) calls"
    by simp_all
  from executePhase_bounded [OF this(1) Cons.prems(2)] Cons.IH [OF rest] c show ?case
    by simp
qed

lemma executePhase_rethrows:
  assumes "fst (operation (beginPhase k now0 s)) = Inl err"
  shows "fst (executePhase k operation now0 now1 s) = Inl err"
proof -
  let ?s0 = "s\<lparr>phaseTracker := Some \<lparr>phase = k, startTime = now0,
                    historicalDurations = getPhaseHistoryRef s k\<rparr>\<rparr>"
  have started: "fst (updateProgress k (Finite 0) ?s0) = Inr ()"
    by (simp add: updateProgress_def updateModalProgress_def Let_def)
  obtain s1 where u1: "updateProgress k (Finite 0) ?s0 = (Inr (), s1)"
    using started by (cases "updateProgress k (Finite 0) ?s0") simp
  then have "beginPhase k now0 s = s1"
    by (simp add: beginPhase_def)
  with assms obtain s2 where "operation s1 = (Inl err, s2)"
    by (cases "operation s1") simp
  with u1 show ?thesis
    by (simp add: executePhase_def Let_def)
qed

lemma keepsHistory_failingOperation: "keepsHistory failingOperation"
  by (simp add: keepsHistory_def failingOperation_def)

text \<open>
  C6. Along every sequence of \<open>executePhase\<close> calls on a new service, with operations that
  leave the histories alone, no phase's duration history grows beyond 10 entries. One
  call changes only the history of its phase: the elapsed duration is appended, after
  the oldest entry has been dropped when the history already held 10, and this happens
  on success and on failure alike; a failure of the operation is returned to the caller
  after the duration has been recorded.
\<close>

theorem executePhase_bounded_history:
  assumes "keepsHistory operation" and "list_all (\<lambda>c. keepsHistory (fst (snd c))) calls"
  shows "historyBounded (executePhases calls newService)
       \<and> (\<forall>q. length (getPhaseHistory (executePhases calls newService) q) \<le> 10)
       \<and> (historyBounded s \<longrightarrow> historyBounded (executePhases calls s))
       \<and> getPhaseHistory (snd (executePhase k operation now0 now1 s)) k =
           (if length (getPhaseHistory s k) \<ge> 10 then tl (getPhaseHistory s k)
            else getPhaseHistory s k) @ [now1 - now0]
       \<and> (\<forall>q. q \<noteq> k \<longrightarrow>
             getPhaseHistory (snd (executePhase k operation now0 now1 s)) q = getPhaseHistory s q)
       \<and> (\<forall>err. fst (operation (beginPhase k now0 s)) = Inl err \<longrightarrow>
             fst (executePhase k operation now0 now1 s) = Inl err
           \<and> last (getPhaseHistory (snd (executePhase k operation now0 now1 s)) k) = now1 - now0)"
proof -
  have new: "historyBounded newService"
    by (simp add: historyBounded_def newService_def getPhaseHistory_def phaseKeys_def)
  have run: "historyBounded (executePhases calls newService)"
    using executePhases_bounded [OF assms(2) new] .
  then have each: "\<forall>q. length (getPhaseHistory (executePhases calls newService) q) \<le> 10"
    by (simp add: historyBounded_iff)
  have from_any: "historyBounded s \<longrightarrow> historyBounded (executePhases calls s)"
    using executePhases_bounded [OF assms(2)] by blast
  have same: "getPhaseHistory (snd (executePhase k operation now0 now1 s)) k =
           (if length (getPhaseHistory s k) \<ge> 10 then tl (getPhaseHistory s k)
            else getPhaseHistory s k) @ [now1 - now0]"
    by (rule executePhase_history_same [OF assms(1)])
  have other: "\<forall>q. q \<noteq> k \<longrightarrow>
             getPhaseHistory (snd (executePhase k operation now0 now1 s)) q = getPhaseHistory s q"
    using executePhase_history_other [OF assms(1)] by blast
  have recorded: "last (getPhaseHistory (snd (executePhase k operation now0 now1 s)) k) = now1 - now0"
    by (simp only: same last_snoc)
  have failure: "\<forall>err. fst (operation (beginPhase k now0 s)) = Inl err \<longrightarrow>
             fst (executePhase k operation now0 now1 s) = Inl err
           \<and> last (getPhaseHistory (snd (executePhase k operation now0 now1 s)) k) = now1 - now0"
    using executePhase_rethrows recorded by blast
  from run each from_any same other failure show ?thesis
    by blast
qed

theorem executePhase_bounded_history_witness:
  "getPhaseHistory (snd (executePhase data_gathering failingOperation 100 250 fullHistoryService))
       data_gathering = [2, 3, 4, 5, 6, 7, 8, 9, 10, 150]
   \<and> fst (executePhase data_gathering failingOperation 100 250 fullHistoryService)
       = Inl (Failure (js ''No Dashboard selected''))
   \<and> historyBounded (executePhases
        [(data_gathering, failingOperation, 100, 250), (success, failingOperation, 300, 301)]
        newService)"
proof -
  have calls: "list_all (\<lambda>c. keepsHistory (fst (snd c)))
                 [(data_gathering, failingOperation, 100, 250), (success, failingOperation, 300, 301)]"
    by (simp add: keepsHistory_failingOperation)
  have h: "getPhaseHistory fullHistoryService data_gathering = [1, 2, 3, 4, 5, 6, 7, 8, 9, 10]"
    by (simp add: getPhaseHistory_def fullHistoryService_def)
  have f: "fst (failingOperation (beginPhase data_gathering 100 fullHistoryService))
             = Inl (Failure (js ''No Dashboard selected''))"
    by (simp add: failingOperation_def)
  from executePhase_bounded_history [OF keepsHistory_failingOperation calls,
         of fullHistoryService data_gathering 100 250] h f
  show ?thesis
    by simp
qed

section \<open>No valid panels\<close>

lemma getValidPanels_emptyDashboard: "getValidPanels emptyDashboard = []"
  by (simp add: getValidPanels_def emptyDashboard_def isValidPanel_def isExcludedPanelType_def
        isEmptyPanel_def hasNoDataMessage_def querySelector_def markdownPanel_def noDataPanel_def
        trim_def isWhiteSpace_def js_def)

text \<open>
  C7. When no panel passes validation, \<open>getVisualizationData\<close> fails with \<open>NoValidPanels\<close> and
  the page is as it was: no inline style has been written, and the trace holds no new
  event, so no snapshot has been stored and \<open>preparePanelDimensions\<close> has not run (nor has
  the success toast been shown).
\<close>

theorem getVisualizationData_no_valid_panels:
  assumes "getValidPanels doc = []"
  shows "getVisualizationData e doc allowTableOfContents organization w = (Inl NoValidPanels, w)
       \<and> styles (snd (getVisualizationData e doc allowTableOfContents organization w)) = styles w
       \<and> events (snd (getVisualizationData e doc allowTableOfContents organization w)) = events w"
  using assms by (simp add: getVisualizationData_def)

theorem getVisualizationData_no_valid_panels_witness:
  "getVisualizationData exampleEnv emptyDashboard True (js ''Org'') dashboardWorld
     = (Inl NoValidPanels, dashboardWorld)"
  using getVisualizationData_no_valid_panels [OF getValidPanels_emptyDashboard] by blast

section \<open>Near-white snap\<close>

declare nearWhiteSnap.simps [simp del]

lemma nearWhiteSnap_length: "length (nearWhiteSnap i d) = length d"
proof (induction i d rule: nearWhiteSnap.induct)
  case (1 i d)
  then show ?case
    by (subst nearWhiteSnap.simps) simp
qed

text \<open>The loop at index \<open>i\<close> leaves the bytes before \<open>i\<close> as they are.\<close>

lemma nearWhiteSnap_before: "j < i \<Longrightarrow> nearWhiteSnap i d ! j = d ! j"
proof (induction i d rule: nearWhiteSnap.induct)
  case (1 i d)
  then show ?case
    by (subst nearWhiteSnap.simps) simp
qed

text \<open>
  Started at index \<open>i\<close>, the loop snaps every group of four bytes that begins a
  multiple of four after \<open>i\<close> and lies within the data.
\<close>

lemma nearWhiteSnap_quad:
  "i + 4 * k + 3 < length d \<Longrightarrow>
   quad (nearWhiteSnap i d) (i + 4 * k) = snapPixel (quad d (i + 4 * k))"
proof (induction i d arbitrary: k rule: nearWhiteSnap.induct)
  case (1 i d)
  from "1.prems" have lt: "i < length d"
    by simp
  let ?c = "channelAbove240 d i \<and> channelAbove240 d (i + 1) \<and> channelAbove240 d (i + 2)"
  define d' where "d' = (if ?c then d[i + 2 := 255, i + 1 := 255, i := 255] else d)"
  have step: "nearWhiteSnap i d = nearWhiteSnap (i + 4) d'"
    using lt by (subst nearWhiteSnap.simps) (simp add: d'_def)
  have later: "quad d' off = quad d off" if "i + 4 \<le> off" for off
    using that by (simp add: d'_def quad_def)
  show ?case
  proof (cases k)
    case 0
    with "1.prems" have in_range: "i + 3 < length d"
      by simp
    have here: "quad d' i = snapPixel (quad d i)"
      using in_range by (simp add: d'_def quad_def channelAbove240_def)
    have "quad (nearWhiteSnap (i + 4) d') i = quad d' i"
      by (simp add: quad_def nearWhiteSnap_before)
    with step here 0 show ?thesis
      by simp
  next
    case (Suc k')
    with "1.prems" have r: "(i + 4) + 4 * k' + 3 < length d"
      by simp
    have off: "i + 4 * k = (i + 4) + 4 * k'"
      using Suc by simp
    have ih: "quad (nearWhiteSnap (i + 4) d') ((i + 4) + 4 * k') = snapPixel (quad d' ((i + 4) + 4 * k'))"
    proof (cases ?c)
      case True
      have r': "(i + 4) + 4 * k' + 3 < length (d[i + 2 := 255, i + 1 := 255, i := 255])"
        using r by simp
      from "1.IH"(1) [OF lt True r'] show ?thesis
        unfolding d'_def if_P [OF True] .
    next
      case False
      from "1.IH"(2) [OF lt False r] show ?thesis
        unfolding d'_def if_not_P [OF False] .
    qed
    have "quad (nearWhiteSnap i d) (i + 4 * k) = quad (nearWhiteSnap (i + 4) d') ((i + 4) + 4 * k')"
      by (simp only: step off)
    also have "\<dots> = snapPixel (quad d' ((i + 4) + 4 * k'))"
      by (rule ih)
    also have "\<dots> = snapPixel (quad d ((i + 4) + 4 * k'))"
      using later [of "(i + 4) + 4 * k'"] by simp
    also have "\<dots> = snapPixel (quad d (i + 4 * k))"
      by (simp only: off)
    finally show ?thesis .
  qed
qed

lemma pixelAt_quad: "pixelAt d k = quad d (0 + 4 * k)"
  by (simp add: pixelAt_def quad_def)

text \<open>
  C8. In the default profile (with a 2d context) the pixel data keeps its length, and
  every pixel within it is the snap of the pixel html2canvas produced: red, green and blue
  become 255 when each of them is above 240, alpha stays, and any other pixel is
  unchanged. So (245,248,250) becomes (255,255,255) and (200,200,200) stays.
\<close>

theorem nearWhiteSnap_default_profile:
  assumes "4 * k + 3 < length data"
  shows "pixelAt (postProcessCanvas DefaultProfile True data) k = snapPixel (pixelAt data k)
       \<and> length (postProcessCanvas DefaultProfile True data) = length data
       \<and> snapPixel (r, g, b, a) =
           (if 240 < r \<and> 240 < g \<and> 240 < b then (255, 255, 255, a) else (r, g, b, a))
       \<and> snapPixel (245, 248, 250, a) = (255, 255, 255, a)
       \<and> snapPixel (200, 200, 200, a) = (200, 200, 200, a)
       \<and> postProcessCanvas DefaultProfile True [245, 248, 250, a, 200, 200, 200, a']
           = [255, 255, 255, a, 200, 200, 200, a']
       \<and> selectProfile False False False = DefaultProfile"
proof -
  from assms have within: "0 + 4 * k + 3 < length data"
    by simp
  have px: "pixelAt (postProcessCanvas DefaultProfile True data) k = snapPixel (pixelAt data k)"
    unfolding pixelAt_quad postProcessCanvas_def
    using nearWhiteSnap_quad [OF within] by simp
  have ln: "length (postProcessCanvas DefaultProfile True data) = length data"
    by (simp add: postProcessCanvas_def nearWhiteSnap_length)
  have ex: "postProcessCanvas DefaultProfile True [245, 248, 250, a, 200, 200, 200, a']
           = [255, 255, 255, a, 200, 200, 200, a']"
    by (simp add: postProcessCanvas_def nearWhiteSnap.simps channelAbove240_def)
  from px ln ex show ?thesis
    by (simp add: selectProfile_def)
qed

theorem nearWhiteSnap_default_profile_witness:
  "pixelAt (postProcessCanvas DefaultProfile True [245, 248, 250, 255, 200, 200, 200, 255]) 0
     = (255, 255, 255, 255)
   \<and> pixelAt (postProcessCanvas DefaultProfile True [245, 248, 250, 255, 200, 200, 200, 255]) 1
     = (200, 200, 200, 255)"
proof -
  have first: "4 * 0 + 3 < length [245, 248, 250, 255, 200, 200, 200, 255 :: byte]"
    and second: "4 * 1 + 3 < length [245, 248, 250, 255, 200, 200, 200, 255 :: byte]"
    by simp_all
  from nearWhiteSnap_default_profile [OF first] nearWhiteSnap_default_profile [OF second]
  show ?thesis
    by (simp add: pixelAt_def)
qed

section \<open>Panel validation\<close>

lemma panelTitleEntry_Some:
  "panelTitleEntry p =
     Some \<lparr>entryPanel = p,
           entryTitle = (if truthy (dataTitle p) then the (dataTitle p)
                         else if truthy (map_option trim (embPanelTitleText p)) then trim (the (embPanelTitleText p))
                         else (js ''[No Title]''))\<rparr>"
  by (auto simp add: panelTitleEntry_def Let_def or_else_def truthy_def js_def split: option.splits)

lemma validatePanels_map:
  "validatePanels panels = map (\<lambda>p. the (panelTitleEntry p)) panels"
  by (induction panels) (simp_all add: validatePanels_def panelTitleEntry_Some)

text \<open>
  C9. \<open>validatePanels\<close> returns one entry per input panel, in the input order: the panel
  with its \<open>data-title\<close> attribute when that is a non-empty string, else the trimmed
  header text when that is non-empty, else the literal \<open>[No Title]\<close>. The callback never
  yields \<open>null\<close>, so the filter removes nothing, and the page count computed from the
  validated panels is the one of the input panels.
\<close>

theorem validatePanels_keeps_every_panel:
  "validatePanels panels =
     map (\<lambda>p. \<lparr>entryPanel = p,
                entryTitle = (if truthy (dataTitle p) then the (dataTitle p)
                              else if truthy (map_option trim (embPanelTitleText p)) then trim (the (embPanelTitleText p))
                              else (js ''[No Title]''))\<rparr>) panels
   \<and> map entryPanel (validatePanels panels) = panels
   \<and> length (validatePanels panels) = length panels
   \<and> filter (\<lambda>entry. entry = None) (map panelTitleEntry panels) = []
   \<and> calculateTotalPages (int (length (validatePanels panels))) = calculateTotalPages (int (length panels))"
proof -
  have m: "validatePanels panels =
     map (\<lambda>p. \<lparr>entryPanel = p,
                entryTitle = (if truthy (dataTitle p) then the (dataTitle p)
                              else if truthy (map_option trim (embPanelTitleText p)) then trim (the (embPanelTitleText p))
                              else (js ''[No Title]''))\<rparr>) panels"
    by (simp add: validatePanels_map panelTitleEntry_Some)
  have p: "map entryPanel (validatePanels panels) = panels"
    by (simp add: m comp_def)
  have l: "length (validatePanels panels) = length panels"
    by (simp add: m)
  have n: "filter (\<lambda>entry. entry = None) (map panelTitleEntry panels) = []"
    by (simp add: panelTitleEntry_Some)
  from m p l n show ?thesis by simp
qed

section \<open>Tenant name on the cover page\<close>
































text \<open>
  The upper case of the first character can be longer than one code unit: with the sharp
  s in front, the result starts with two capital letters.
\<close>

lemma capitalizeFirstLetter_sharp_s:
  "capitalizeFirstLetter germanCaseMapping [0xDF, 0x61] = js ''SSa''"
  by (simp add: capitalizeFirstLetter_def charAt_def germanCaseMapping_def js_def upperUnit_def
        lowerUnit_def)

text \<open>The German letters of an organization name are kept on the cover page.\<close>

lemma formatOrganizationName_umlaut:
  "formatOrganizationName [0x4D, 0xFC, 0x6C, 0x6C, 0x65, 0x72, 0x20, 0x26, 0x20, 0x53, 0xF6, 0x68, 0x6E, 0x65]
     = [0x4D, 0xFC, 0x6C, 0x6C, 0x65, 0x72, 0x20, 0x20, 0x53, 0xF6, 0x68, 0x6E, 0x65]"
  by (simp add: formatOrganizationName_def allowedNameChar_def MAX_TENANT_NAME_LENGTH_def
        isWhiteSpace_def)

end
